theory Spec2Isabelle
  imports Complex_Main "HOL-Library.Multiset"
begin

section \<open>Dates\<close>

text \<open>
  A JavaScript \<open>Date\<close> is modelled by its time value: the number of milliseconds since
  1970-01-01T00:00:00Z, which is what \<open>getTime()\<close> returns. The Invalid Date, whose time
  value is NaN, is not in the model. A time value is an integer, and the differences and
  quotients that the code computes from time values are modelled as exact integer
  arithmetic; the code computes them in double precision, which is exact as long as the
  difference of the two time values stays below \<open>2^53\<close> ms (dates less than 285 000 years
  apart).
\<close>

type_synonym Date = int

definition getTime :: "Date \<Rightarrow> int" where
  "getTime d = d"

section \<open>Data model (types/index.ts)\<close>

text \<open>
  The interfaces of \<open>types/index.ts\<close> as records. The fields \<open>id\<close>, \<open>title\<close> and
  \<open>description\<close> occur in several interfaces and carry the owner as a prefix here.
\<close>

datatype RationaleStatus = Fresh | ReviewDue | Stale

record LoanInfo =
  loan_id :: string
  approvalDate :: Date
  borrowerReference :: string

record ContextualSignal =
  sig_id :: string
  sig_description :: string
  updatedAt :: Date

record Rationale =
  rat_id :: string
  rat_title :: string
  rat_description :: string
  createdAt :: Date
  lastReviewedAt :: Date
  status :: RationaleStatus
  contextualSignals :: "ContextualSignal list"

record PendingRationale =
  pend_id :: string
  pend_title :: string
  pend_description :: string
  extractedAt :: Date
  sourceText :: string

record ReviewItem =
  item_title :: string
  item_status :: RationaleStatus
  daysSinceReview :: int

record ReviewSummary =
  generatedAt :: Date
  loanId :: string
  rationalesNeedingReview :: "ReviewItem list"
  summaryText :: string

datatype DataSource = SourceNone | SourceDemo | SourceExtracted

record LoanCockpitState =
  loan :: "LoanInfo option"
  rationales :: "Rationale list"
  pendingRationales :: "PendingRationale list"
  isExtracting :: bool
  showConfirmation :: bool
  dataSource :: DataSource

section \<open>Staleness calculator (services/stalenessCalculator.ts)\<close>

definition FRESH_THRESHOLD_DAYS :: int where
  "FRESH_THRESHOLD_DAYS = 30"

definition REVIEW_DUE_THRESHOLD_DAYS :: int where
  "REVIEW_DUE_THRESHOLD_DAYS = 90"

text \<open>
  \<open>Math.floor(diffMs / msPerDay)\<close>: on integers \<open>div\<close> rounds towards minus infinity,
  as the floor of the quotient does. The code subtracts and divides in double precision;
  its result is this quotient whenever the two time values are less than \<open>2^53\<close> ms
  apart, where the difference is exact and the rounding of the quotient (by less than
  \<open>1 / msPerDay\<close>) does not reach the next whole number. Further apart, the rounded
  difference may give a day more or less than the exact quotient; the sign of the result
  is that of the exact difference in either case.
\<close>

definition getDaysSinceReview :: "Date \<Rightarrow> Date \<Rightarrow> int" where
  "getDaysSinceReview lastReviewedDate currentDate =
     (let msPerDay = 24 * 60 * 60 * 1000;
          diffMs = getTime currentDate - getTime lastReviewedDate
      in diffMs div msPerDay)"

definition calculateStatus :: "Date \<Rightarrow> Date \<Rightarrow> RationaleStatus" where
  "calculateStatus lastReviewedDate currentDate =
     (let daysSinceReview = getDaysSinceReview lastReviewedDate currentDate
      in if daysSinceReview \<le> FRESH_THRESHOLD_DAYS then Fresh
         else if daysSinceReview \<le> REVIEW_DUE_THRESHOLD_DAYS then ReviewDue
         else Stale)"

section \<open>Confirmation actions (services/confirmationActions.ts)\<close>

definition confirmPendingRationale :: "PendingRationale \<Rightarrow> Date \<Rightarrow> Rationale" where
  "confirmPendingRationale pending confirmTime =
     \<lparr> rat_id = pend_id pending,
       rat_title = pend_title pending,
       rat_description = pend_description pending,
       createdAt = confirmTime,
       lastReviewedAt = confirmTime,
       status = calculateStatus confirmTime confirmTime,
       contextualSignals = [] \<rparr>"

definition rejectPendingRationale ::
    "PendingRationale list \<Rightarrow> string \<Rightarrow> PendingRationale list" where
  "rejectPendingRationale pendingList rationaleId =
     filter (\<lambda>p. pend_id p \<noteq> rationaleId) pendingList"

definition confirmAllPendingRationales ::
    "PendingRationale list \<Rightarrow> Date \<Rightarrow> Rationale list" where
  "confirmAllPendingRationales pendingList confirmTime =
     map (\<lambda>pending. confirmPendingRationale pending confirmTime) pendingList"

section \<open>Review action (services/reviewAction.ts)\<close>

definition markRationaleAsReviewed :: "Rationale \<Rightarrow> Date \<Rightarrow> Rationale" where
  "markRationaleAsReviewed rationale reviewTime =
     rationale \<lparr> lastReviewedAt := reviewTime,
                 status := calculateStatus reviewTime reviewTime \<rparr>"

section \<open>Demo data (services/demoData.ts)\<close>

text \<open>
  \<open>new Date('2024-03-15')\<close> is midnight UTC of that day, 1710460800000 ms. The two
  functions that read the clock take the reading as \<open>now\<close>.
\<close>

definition createDemoLoan :: LoanInfo where
  "createDemoLoan =
     \<lparr> loan_id = ''CML-2024-00847'',
       approvalDate = 1710460800000,
       borrowerReference = ''REF-ACME-2024'' \<rparr>"

definition signals_revenue :: "Date \<Rightarrow> ContextualSignal list" where
  "signals_revenue now =
     [\<lparr> sig_id = ''sig-001'',
        sig_description = ''Industry revenue data updated 2 weeks ago'',
        updatedAt = getTime now - 14 * 24 * 60 * 60 * 1000 \<rparr>]"

definition signals_collateral :: "Date \<Rightarrow> ContextualSignal list" where
  "signals_collateral now =
     [\<lparr> sig_id = ''sig-002'',
        sig_description = ''Regional property index updated 6 weeks ago'',
        updatedAt = getTime now - 42 * 24 * 60 * 60 * 1000 \<rparr>]"

definition signals_management :: "Date \<Rightarrow> ContextualSignal list" where
  "signals_management now =
     [\<lparr> sig_id = ''sig-003'',
        sig_description = ''Executive team composition unchanged'',
        updatedAt = getTime now - 30 * 24 * 60 * 60 * 1000 \<rparr>,
      \<lparr> sig_id = ''sig-004'',
        sig_description = ''Industry leadership benchmark updated 4 months ago'',
        updatedAt = getTime now - 120 * 24 * 60 * 60 * 1000 \<rparr>]"

definition createDemoRationales :: "Date \<Rightarrow> Date \<Rightarrow> Rationale list" where
  "createDemoRationales signalsNow now =
     (let freshReviewDate = getTime now - 15 * 24 * 60 * 60 * 1000;
          reviewDueDate = getTime now - 45 * 24 * 60 * 60 * 1000;
          staleReviewDate = getTime now - 120 * 24 * 60 * 60 * 1000;
          created = 1710460800000
      in [\<lparr> rat_id = ''rat-001'',
             rat_title = ''Revenue Stability Assessment'',
             rat_description = ''Borrower demonstrated 3 consecutive years of stable revenue growth with diversified customer base.'',
             createdAt = created,
             lastReviewedAt = freshReviewDate,
             status = calculateStatus freshReviewDate now,
             contextualSignals = signals_revenue signalsNow \<rparr>,
          \<lparr> rat_id = ''rat-002'',
             rat_title = ''Collateral Valuation Basis'',
             rat_description = ''Property valuation based on Q1 2024 appraisal with 15% haircut applied per policy.'',
             createdAt = created,
             lastReviewedAt = reviewDueDate,
             status = calculateStatus reviewDueDate now,
             contextualSignals = signals_collateral signalsNow \<rparr>,
          \<lparr> rat_id = ''rat-003'',
             rat_title = ''Management Experience Consideration'',
             rat_description = ''CEO has 20+ years industry experience; CFO previously at Fortune 500 company.'',
             createdAt = created,
             lastReviewedAt = staleReviewDate,
             status = calculateStatus staleReviewDate now,
             contextualSignals = signals_management signalsNow \<rparr>])"

definition loadDemoData :: "Date \<Rightarrow> LoanInfo \<times> Rationale list" where
  "loadDemoData now = (createDemoLoan, createDemoRationales now now)"

section \<open>Cockpit state reducer (context/LoanCockpitContext.tsx)\<close>

datatype LoanCockpitAction =
    LOAD_DEMO_DATA
  | START_EXTRACTION LoanInfo "PendingRationale list"
  | SET_LOAN LoanInfo
  | SET_RATIONALES "Rationale list"
  | ADD_PENDING_RATIONALES "PendingRationale list"
  | CONFIRM_RATIONALE PendingRationale
  | REJECT_RATIONALE string
  | CONFIRM_ALL_RATIONALES
  | MARK_REVIEWED string
  | SET_EXTRACTING bool
  | SET_SHOW_CONFIRMATION bool
  | CLEAR_STATE
  | RESTORE_STATE LoanCockpitState
  | SET_EXTRACTION_ERROR

definition initialState :: LoanCockpitState where
  "initialState =
     \<lparr> loan = None,
       rationales = [],
       pendingRationales = [],
       isExtracting = False,
       showConfirmation = False,
       dataSource = SourceNone \<rparr>"

text \<open>
  The reducer reads the clock with \<open>new Date()\<close>; the reading of a transition is the
  parameter \<open>now\<close>.
\<close>

fun loanCockpitReducer ::
    "Date \<Rightarrow> LoanCockpitState \<Rightarrow> LoanCockpitAction \<Rightarrow> LoanCockpitState" where
  "loanCockpitReducer now state LOAD_DEMO_DATA =
     (let demoData = loadDemoData now
      in state \<lparr> loan := Some (fst demoData),
                 rationales := snd demoData,
                 pendingRationales := [],
                 showConfirmation := False,
                 dataSource := SourceDemo \<rparr>)"
| "loanCockpitReducer now state (START_EXTRACTION newLoan pending) =
     state \<lparr> loan := Some newLoan,
             rationales := [],
             pendingRationales := pending,
             showConfirmation := (length pending > 0),
             isExtracting := False,
             dataSource := SourceExtracted \<rparr>"
| "loanCockpitReducer now state SET_EXTRACTION_ERROR =
     initialState \<lparr> isExtracting := False \<rparr>"
| "loanCockpitReducer now state (SET_LOAN newLoan) =
     state \<lparr> loan := Some newLoan \<rparr>"
| "loanCockpitReducer now state (SET_RATIONALES rs) =
     state \<lparr> rationales := rs \<rparr>"
| "loanCockpitReducer now state (ADD_PENDING_RATIONALES ps) =
     state \<lparr> pendingRationales := pendingRationales state @ ps,
             showConfirmation := (length ps > 0) \<rparr>"
| "loanCockpitReducer now state (CONFIRM_RATIONALE pending) =
     (let newRationale =
            \<lparr> rat_id = pend_id pending,
              rat_title = pend_title pending,
              rat_description = pend_description pending,
              createdAt = now,
              lastReviewedAt = now,
              status = calculateStatus now now,
              contextualSignals = [] \<rparr>
      in state \<lparr> rationales := rationales state @ [newRationale],
                 pendingRationales :=
                   filter (\<lambda>p. pend_id p \<noteq> pend_id pending) (pendingRationales state),
                 showConfirmation := (length (pendingRationales state) > 1) \<rparr>)"
| "loanCockpitReducer now state (REJECT_RATIONALE rid) =
     state \<lparr> pendingRationales :=
               filter (\<lambda>p. pend_id p \<noteq> rid) (pendingRationales state),
             showConfirmation := (length (pendingRationales state) > 1) \<rparr>"
| "loanCockpitReducer now state CONFIRM_ALL_RATIONALES =
     (let newRationales =
            map (\<lambda>pending.
                   \<lparr> rat_id = pend_id pending,
                     rat_title = pend_title pending,
                     rat_description = pend_description pending,
                     createdAt = now,
                     lastReviewedAt = now,
                     status = calculateStatus now now,
                     contextualSignals = [] \<rparr>)
                (pendingRationales state)
      in state \<lparr> rationales := rationales state @ newRationales,
                 pendingRationales := [],
                 showConfirmation := False \<rparr>)"
| "loanCockpitReducer now state (MARK_REVIEWED rid) =
     state \<lparr> rationales :=
               map (\<lambda>r. if rat_id r = rid
                         then r \<lparr> lastReviewedAt := now, status := calculateStatus now now \<rparr>
                         else r)
                   (rationales state) \<rparr>"
| "loanCockpitReducer now state (SET_EXTRACTING b) =
     state \<lparr> isExtracting := b \<rparr>"
| "loanCockpitReducer now state (SET_SHOW_CONFIRMATION b) =
     state \<lparr> showConfirmation := b \<rparr>"
| "loanCockpitReducer now state CLEAR_STATE = initialState"
| "loanCockpitReducer now state (RESTORE_STATE payload) = payload"

section \<open>Review summary (services/reviewSummary.ts)\<close>

text \<open>
  Strings are lists of characters. \<open>`${n}`\<close> of an integer is its decimal numeral with a
  leading minus sign for a negative number.
\<close>

definition digitChar :: "nat \<Rightarrow> char" where
  "digitChar k = char_of (48 + k)"

fun decimalDigits :: "nat \<Rightarrow> string" where
  "decimalDigits n =
     (if 10 \<le> n then decimalDigits (n div 10) @ [digitChar (n mod 10)] else [digitChar n])"

definition numberToString :: "int \<Rightarrow> string" where
  "numberToString i =
     (if 0 \<le> i then decimalDigits (nat i) else CHR ''-'' # decimalDigits (nat (- i)))"

fun status_text :: "RationaleStatus \<Rightarrow> string" where
  "status_text Fresh = ''Fresh''"
| "status_text ReviewDue = ''Review Due''"
| "status_text Stale = ''Stale''"

text \<open>\<open>lines.join('\n')\<close>.\<close>

fun joinLines :: "string list \<Rightarrow> string" where
  "joinLines [] = []"
| "joinLines [l] = l"
| "joinLines (l # ls) = l @ CHR 0x0A # joinLines ls"

text \<open>The bullet U+2022 that opens an entry, as its three UTF-8 bytes.\<close>

definition bullet :: string where
  "bullet = [CHR 0xE2, CHR 0x80, CHR 0xA2]"

text \<open>
  \<open>[...rationalesNeedingReview].sort((a, b) => b.daysSinceReview - a.daysSinceReview)\<close>:
  a stable sort of a copy, greatest \<open>daysSinceReview\<close> first.
\<close>

definition sortMostStaleFirst :: "ReviewItem list \<Rightarrow> ReviewItem list" where
  "sortMostStaleFirst items = sort_key (\<lambda>item. - daysSinceReview item) items"

definition entryLines :: "ReviewItem \<Rightarrow> string list" where
  "entryLines item =
     [bullet @ '' '' @ item_title item,
      ''  Status: '' @ status_text (item_status item),
      ''  Days since last review: '' @ numberToString (daysSinceReview item),
      []]"

text \<open>
  \<open>formatDate\<close> calls \<open>toLocaleDateString('en-US', ...)\<close>, whose text depends on the
  host's time zone and locale data: it is the parameter \<open>formatDate\<close>.
\<close>

definition generateSummaryLines ::
    "(Date \<Rightarrow> string) \<Rightarrow> string \<Rightarrow> ReviewItem list \<Rightarrow> Date \<Rightarrow> string list" where
  "generateSummaryLines formatDate lid items generated =
     [''ANNUAL REVIEW SUMMARY'',
      ''====================='',
      [],
      ''Loan ID: '' @ lid,
      ''Generated: '' @ formatDate generated,
      []]
     @ (if length items = 0
        then [''All approval rationales are current. No review required at this time.'']
        else [''RATIONALES REQUIRING REVIEW'',
              ''---------------------------'',
              []]
             @ concat (map entryLines (sortMostStaleFirst items))
             @ [''---------------------------'',
                ''Total rationales requiring review: '' @ numberToString (int (length items))])"

definition generateSummaryText ::
    "(Date \<Rightarrow> string) \<Rightarrow> string \<Rightarrow> ReviewItem list \<Rightarrow> Date \<Rightarrow> string" where
  "generateSummaryText formatDate lid items generated =
     joinLines (generateSummaryLines formatDate lid items generated)"

definition generateReviewSummary ::
    "(Date \<Rightarrow> string) \<Rightarrow> Rationale list \<Rightarrow> string \<Rightarrow> Date \<Rightarrow> ReviewSummary" where
  "generateReviewSummary formatDate rs lid currentDate =
     (let needingReview = filter (\<lambda>r. status r = ReviewDue \<or> status r = Stale) rs;
          items = map (\<lambda>r. \<lparr> item_title = rat_title r,
                              item_status = status r,
                              daysSinceReview = getDaysSinceReview (lastReviewedAt r) currentDate \<rparr>)
                      needingReview;
          text = generateSummaryText formatDate lid items currentDate
      in \<lparr> generatedAt = currentDate,
            loanId = lid,
            rationalesNeedingReview = items,
            summaryText = text \<rparr>)"

definition getRationalesNeedingReview :: "Rationale list \<Rightarrow> Rationale list" where
  "getRationalesNeedingReview rs = filter (\<lambda>r. status r = ReviewDue \<or> status r = Stale) rs"

section \<open>Calendar fields of a time value\<close>

text \<open>
  The getters of \<open>Date\<close> as ECMAScript defines them: the day number and the time within
  the day, the year as the greatest year that starts at or before the day, the month and
  the day of the month by the table of month starts. The year is found from the estimate
  \<open>1970 + \<lfloor>400 * day / 146097\<rfloor>\<close> (a year lasts 146097 / 400 days on average), which
  is off by at most one.
\<close>

definition msPerDay :: int where
  "msPerDay = 86400000"

definition Day :: "int \<Rightarrow> int" where
  "Day t = t div msPerDay"

definition TimeWithinDay :: "int \<Rightarrow> int" where
  "TimeWithinDay t = t mod msPerDay"

definition DaysInYear :: "int \<Rightarrow> int" where
  "DaysInYear y =
     (if y mod 4 \<noteq> 0 then 365
      else if y mod 100 \<noteq> 0 then 366
      else if y mod 400 \<noteq> 0 then 365
      else 366)"

definition DayFromYear :: "int \<Rightarrow> int" where
  "DayFromYear y =
     365 * (y - 1970) + (y - 1969) div 4 - (y - 1901) div 100 + (y - 1601) div 400"

definition YearFromDay :: "int \<Rightarrow> int" where
  "YearFromDay d =
     (let e = 1970 + (400 * d) div 146097
      in if DayFromYear (e + 1) \<le> d then e + 1
         else if DayFromYear e \<le> d then e
         else e - 1)"

definition YearFromTime :: "int \<Rightarrow> int" where
  "YearFromTime t = YearFromDay (Day t)"

definition leapDays :: "int \<Rightarrow> int" where
  "leapDays y = (if DaysInYear y = 366 then 1 else 0)"

text \<open>The day within the year on which month \<open>m\<close> (0 to 11) starts; 12 is the year's end.\<close>

definition monthStart :: "int \<Rightarrow> int \<Rightarrow> int" where
  "monthStart leap m =
     (if m \<le> 0 then 0
      else if m = 1 then 31
      else if m = 2 then 59 + leap
      else if m = 3 then 90 + leap
      else if m = 4 then 120 + leap
      else if m = 5 then 151 + leap
      else if m = 6 then 181 + leap
      else if m = 7 then 212 + leap
      else if m = 8 then 243 + leap
      else if m = 9 then 273 + leap
      else if m = 10 then 304 + leap
      else if m = 11 then 334 + leap
      else 365 + leap)"

definition monthOfDayInYear :: "int \<Rightarrow> int \<Rightarrow> int" where
  "monthOfDayInYear leap d =
     (if d < 31 then 0
      else if d < 59 + leap then 1
      else if d < 90 + leap then 2
      else if d < 120 + leap then 3
      else if d < 151 + leap then 4
      else if d < 181 + leap then 5
      else if d < 212 + leap then 6
      else if d < 243 + leap then 7
      else if d < 273 + leap then 8
      else if d < 304 + leap then 9
      else if d < 334 + leap then 10
      else 11)"

definition DayWithinYear :: "int \<Rightarrow> int" where
  "DayWithinYear t = Day t - DayFromYear (YearFromTime t)"

definition MonthFromTime :: "int \<Rightarrow> int" where
  "MonthFromTime t = monthOfDayInYear (leapDays (YearFromTime t)) (DayWithinYear t)"

definition DateFromTime :: "int \<Rightarrow> int" where
  "DateFromTime t =
     DayWithinYear t - monthStart (leapDays (YearFromTime t)) (MonthFromTime t) + 1"

text \<open>
  \<open>getFullYear\<close>, \<open>getMonth\<close> and \<open>getDate\<close> read the fields of the local time, which is
  the time value plus the host's offset from UTC at that moment: the parameter \<open>tza\<close>.
\<close>

definition LocalTime :: "(int \<Rightarrow> int) \<Rightarrow> int \<Rightarrow> int" where
  "LocalTime tza t = t + tza t"

definition getFullYear :: "(int \<Rightarrow> int) \<Rightarrow> Date \<Rightarrow> int" where
  "getFullYear tza d = YearFromTime (LocalTime tza d)"

definition getMonth :: "(int \<Rightarrow> int) \<Rightarrow> Date \<Rightarrow> int" where
  "getMonth tza d = MonthFromTime (LocalTime tza d)"

definition getDate :: "(int \<Rightarrow> int) \<Rightarrow> Date \<Rightarrow> int" where
  "getDate tza d = DateFromTime (LocalTime tza d)"

section \<open>Approval logic age (services/approvalLogicAge.ts)\<close>

definition calculateApprovalLogicAge :: "(int \<Rightarrow> int) \<Rightarrow> Date \<Rightarrow> Date \<Rightarrow> int" where
  "calculateApprovalLogicAge tza approval current =
     (let approvalYear = getFullYear tza approval;
          approvalMonth = getMonth tza approval;
          approvalDay = getDate tza approval;
          currentYear = getFullYear tza current;
          currentMonth = getMonth tza current;
          currentDay = getDate tza current;
          months = (currentYear - approvalYear) * 12 + (currentMonth - approvalMonth);
          months' = (if currentDay < approvalDay then months - 1 else months)
      in max 0 months')"

section \<open>String operations of the host\<close>

text \<open>
  The string methods and the regular expressions that the extractor calls. A character is
  a code unit below 256. \<open>isWhiteSpace\<close> is the class \<open>\s\<close> (which \<open>trim\<close> strips too):
  tab, line feed, vertical tab, form feed, carriage return, space and no-break space.
  Positions are integers, since \<open>indexOf\<close> and \<open>lastIndexOf\<close> return \<open>-1\<close> for no match.
\<close>

definition isWhiteSpace :: "char \<Rightarrow> bool" where
  "isWhiteSpace c =
     (let n = (of_char c :: nat) in (9 \<le> n \<and> n \<le> 13) \<or> n = 32 \<or> n = 160)"

definition trim :: "string \<Rightarrow> string" where
  "trim s = rev (dropWhile isWhiteSpace (rev (dropWhile isWhiteSpace s)))"

text \<open>\<open>s.substring(a, b)\<close>: both positions are clamped to the string, and swapped if \<open>a > b\<close>.\<close>

definition substring :: "string \<Rightarrow> int \<Rightarrow> int \<Rightarrow> string" where
  "substring s a b =
     (let len = int (length s);
          a' = min (max a 0) len;
          b' = min (max b 0) len;
          lo = min a' b';
          hi = max a' b'
      in take (nat (hi - lo)) (drop (nat lo) s))"

definition substringFrom :: "string \<Rightarrow> int \<Rightarrow> string" where
  "substringFrom s a = substring s a (int (length s))"

definition toLowerChar :: "char \<Rightarrow> char" where
  "toLowerChar c =
     (let n = (of_char c :: nat)
      in if (65 \<le> n \<and> n \<le> 90) \<or> (192 \<le> n \<and> n \<le> 222 \<and> n \<noteq> 215)
         then char_of (n + 32) else c)"

definition toLowerCase :: "string \<Rightarrow> string" where
  "toLowerCase s = map toLowerChar s"

definition startsWith :: "string \<Rightarrow> string \<Rightarrow> bool" where
  "startsWith s pat = (take (length pat) s = pat)"

fun findFirst :: "string \<Rightarrow> string \<Rightarrow> nat option" where
  "findFirst pat [] = (if pat = [] then Some 0 else None)"
| "findFirst pat (c # cs) =
     (if startsWith (c # cs) pat then Some 0 else map_option Suc (findFirst pat cs))"

definition indexOf :: "string \<Rightarrow> string \<Rightarrow> int \<Rightarrow> int" where
  "indexOf s pat fromIndex =
     (let k = nat (min (max fromIndex 0) (int (length s)))
      in case findFirst pat (drop k s) of
           None \<Rightarrow> - 1
         | Some i \<Rightarrow> int (k + i))"

fun lastIndexIn :: "char \<Rightarrow> string \<Rightarrow> int" where
  "lastIndexIn c [] = - 1"
| "lastIndexIn c (x # xs) =
     (let r = lastIndexIn c xs
      in if 0 \<le> r then r + 1 else if x = c then 0 else - 1)"

text \<open>\<open>s.lastIndexOf(c, fromIndex)\<close> for a one-character search string.\<close>

definition lastIndexOf :: "string \<Rightarrow> char \<Rightarrow> int \<Rightarrow> int" where
  "lastIndexOf s c fromIndex =
     (let k = nat (min (max fromIndex 0) (int (length s)))
      in lastIndexIn c (take (k + 1) s))"

text \<open>
  The regular expressions are built by \<open>new RegExp(name.replace(/\s+/g, '\\s*'), 'i')\<close>
  from names made of letters and blanks: a sequence of letters, compared without regard
  to case, and of \<open>\s*\<close> items. \<open>\s*\<close> is greedy and gives back what it took when the rest
  fails. \<open>canonicalize\<close> is the case folding of the \<open>i\<close> flag.
\<close>

datatype rx = Lit char | Spaces

fun rxOfFrom :: "bool \<Rightarrow> string \<Rightarrow> rx list" where
  "rxOfFrom inRun [] = []"
| "rxOfFrom inRun (c # cs) =
     (if isWhiteSpace c
      then (if inRun then rxOfFrom True cs else Spaces # rxOfFrom True cs)
      else Lit c # rxOfFrom False cs)"

definition rxOf :: "string \<Rightarrow> rx list" where
  "rxOf name = rxOfFrom False name"

definition canonicalize :: "char \<Rightarrow> char" where
  "canonicalize c =
     (let n = (of_char c :: nat)
      in if (97 \<le> n \<and> n \<le> 122) \<or> (224 \<le> n \<and> n \<le> 254 \<and> n \<noteq> 247)
         then char_of (n - 32) else c)"

fun matchAt :: "rx list \<Rightarrow> string \<Rightarrow> nat option" where
  "matchAt [] s = Some 0"
| "matchAt (Lit c # r) [] = None"
| "matchAt (Lit c # r) (x # xs) =
     (if canonicalize x = canonicalize c then map_option Suc (matchAt r xs) else None)"
| "matchAt (Spaces # r) [] = matchAt r []"
| "matchAt (Spaces # r) (x # xs) =
     (if isWhiteSpace x
      then (case matchAt (Spaces # r) xs of
              Some n \<Rightarrow> Some (Suc n)
            | None \<Rightarrow> matchAt r (x # xs))
      else matchAt r (x # xs))"

text \<open>\<open>s.match(regex)\<close>: the leftmost match, as its index and its length.\<close>

fun searchRx :: "rx list \<Rightarrow> string \<Rightarrow> (nat \<times> nat) option" where
  "searchRx p [] = map_option (\<lambda>n. (0, n)) (matchAt p [])"
| "searchRx p (x # xs) =
     (case matchAt p (x # xs) of
        Some n \<Rightarrow> Some (0, n)
      | None \<Rightarrow> map_option (\<lambda>(i, n). (Suc i, n)) (searchRx p xs))"

text \<open>\<open>content.replace(/\s+/g, ' ')\<close>; the flag tells whether a run of blanks is open.\<close>

fun collapseBlanks :: "bool \<Rightarrow> string \<Rightarrow> string" where
  "collapseBlanks inRun [] = []"
| "collapseBlanks inRun (c # cs) =
     (if isWhiteSpace c
      then (if inRun then collapseBlanks True cs else CHR '' '' # collapseBlanks True cs)
      else c # collapseBlanks False cs)"

text \<open>\<open>content.replace(/^\s*[:\-]\s*/, '')\<close>.\<close>

definition stripLeadingMark :: "string \<Rightarrow> string" where
  "stripLeadingMark s =
     (case dropWhile isWhiteSpace s of
        [] \<Rightarrow> s
      | c # cs \<Rightarrow> if c = CHR '':'' \<or> c = CHR ''-'' then dropWhile isWhiteSpace cs else s)"

section \<open>Rationale extractor (services/rationaleExtractor.ts)\<close>

definition sectionDefs :: "(string \<times> string list) list" where
  "sectionDefs =
     [(''Cash Flow Predictability'',
         [''Asset Coverage'', ''Collateral'', ''Operational'', ''Risk Factors'',
          ''Approval Recommendation'']),
      (''Asset Coverage'',
         [''Operational'', ''Risk Factors'', ''Approval Recommendation'', ''Cash Flow'']),
      (''Operational Track Record'',
         [''Risk Factors'', ''Approval Recommendation'', ''Prepared By'']),
      (''Risk Factors and Mitigants'',
         [''Approval Recommendation'', ''Prepared By'', ''Reviewed By'']),
      (''Executive Summary'',
         [''Key Approval'', ''Cash Flow'', ''Collateral'', ''Risk Factors''])]"

text \<open>The loop over the end markers of a section, which lowers \<open>endIndex\<close>.\<close>

fun findSectionEnd :: "string \<Rightarrow> int \<Rightarrow> string list \<Rightarrow> int \<Rightarrow> int" where
  "findSectionEnd text startIndex [] endIndex = endIndex"
| "findSectionEnd text startIndex (endMarker # ms) endIndex =
     findSectionEnd text startIndex ms
       (case searchRx (rxOf endMarker) (substringFrom text startIndex) of
          None \<Rightarrow> endIndex
        | Some (i, n) \<Rightarrow>
            (let potentialEnd = startIndex + int i
             in if potentialEnd < endIndex \<and> potentialEnd > startIndex + 20
                then potentialEnd else endIndex))"

text \<open>
  The \<open>Map\<close> of sections is the list of its entries in the order of insertion; each name
  is set at most once, and \<open>sections.get\<close> is \<open>map_of\<close>.
\<close>

fun extractSectionsLoop ::
    "string \<Rightarrow> (string \<times> string list) list \<Rightarrow> (string \<times> string) list
      \<Rightarrow> (string \<times> string) list" where
  "extractSectionsLoop text [] sections = sections"
| "extractSectionsLoop text ((name, endMarkers) # defs) sections =
     extractSectionsLoop text defs
       (case searchRx (rxOf name) text of
          None \<Rightarrow> sections
        | Some (idx, n) \<Rightarrow>
            (let startIndex = int idx + int n;
                 endIndex = findSectionEnd text startIndex endMarkers (int (length text));
                 content = trim (substring text startIndex endIndex);
                 content' = trim (stripLeadingMark (collapseBlanks False content))
             in if length content' > 20 then sections @ [(name, content')] else sections))"

definition extractSections :: "string \<Rightarrow> (string \<times> string) list" where
  "extractSections text = extractSectionsLoop text sectionDefs []"

definition sectionMappings :: "(string \<times> string) list" where
  "sectionMappings =
     [(''Cash Flow Predictability'', ''Cash Flow Predictability''),
      (''Asset Coverage'', ''Asset Coverage / Collateral''),
      (''Operational Track Record'', ''Operational Track Record''),
      (''Risk Factors and Mitigants'', ''Risk Factors and Mitigants'')]"

definition fallbackPatterns :: "(string \<times> string) list" where
  "fallbackPatterns =
     [(''cash flow'', ''Cash Flow Analysis''),
      (''collateral'', ''Collateral Evaluation''),
      (''management'', ''Management Assessment''),
      (''operational'', ''Operational Assessment''),
      (''risk'', ''Risk Assessment'')]"

text \<open>
  \<open>generateId()\<close> builds an id from the clock and \<open>Math.random()\<close>; \<open>ids k\<close> is the id
  that the call number \<open>k\<close> of one extraction returns. Every rationale pushed takes one
  id, so the next call's number is the length of the list \<open>rats\<close> of rationales. \<open>now\<close> is the clock
  reading of the extraction.
\<close>

fun sectionLoop ::
    "(nat \<Rightarrow> string) \<Rightarrow> Date \<Rightarrow> (string \<times> string) list \<Rightarrow> (string \<times> string) list
      \<Rightarrow> PendingRationale list \<Rightarrow> PendingRationale list" where
  "sectionLoop ids now sections [] rats = rats"
| "sectionLoop ids now sections ((sectionName, title) # ms) rats =
     sectionLoop ids now sections ms
       (case map_of sections sectionName of
          None \<Rightarrow> rats
        | Some sectionContent \<Rightarrow>
            if sectionContent \<noteq> [] \<and> length sectionContent > 20
            then rats @
              [\<lparr> pend_id = ids (length rats),
                 pend_title = title,
                 pend_description =
                   trim (substring sectionContent 0 350)
                   @ (if length sectionContent > 350 then ''...'' else []),
                 extractedAt = now,
                 sourceText = sectionContent \<rparr>]
            else rats)"

fun fallbackLoop ::
    "(nat \<Rightarrow> string) \<Rightarrow> Date \<Rightarrow> string \<Rightarrow> string \<Rightarrow> (string \<times> string) list
      \<Rightarrow> PendingRationale list \<Rightarrow> PendingRationale list" where
  "fallbackLoop ids now text lowerText [] rats = rats"
| "fallbackLoop ids now text lowerText ((keyword, title) # ps) rats =
     fallbackLoop ids now text lowerText ps
       (let keywordIndex = indexOf lowerText keyword 0
        in if keywordIndex \<noteq> - 1
           then (let sentenceStart = max 0 (lastIndexOf text CHR ''.'' keywordIndex + 1);
                     sentenceEnd = indexOf text ''.'' (keywordIndex + int (length keyword));
                     endIndex = (if sentenceEnd \<noteq> - 1
                                 then min (sentenceEnd + 1) (keywordIndex + 300)
                                 else keywordIndex + 300);
                     context = trim (substring text sentenceStart endIndex)
                 in if length context > 30
                    then rats @
                      [\<lparr> pend_id = ids (length rats),
                         pend_title = title,
                         pend_description =
                           substring context 0 350
                           @ (if length context > 350 then ''...'' else []),
                         extractedAt = now,
                         sourceText = context \<rparr>]
                    else rats)
           else rats)"

text \<open>The rationales after the loop over the sections, and after the keyword fallback.\<close>

definition sectionRationales :: "(nat \<Rightarrow> string) \<Rightarrow> Date \<Rightarrow> string \<Rightarrow> PendingRationale list" where
  "sectionRationales ids now text =
     sectionLoop ids now (extractSections text) sectionMappings []"

definition fallbackRationales :: "(nat \<Rightarrow> string) \<Rightarrow> Date \<Rightarrow> string \<Rightarrow> PendingRationale list" where
  "fallbackRationales ids now text =
     (let rats = sectionRationales ids now text
      in if length rats = 0
         then fallbackLoop ids now text (toLowerCase text) fallbackPatterns rats
         else rats)"

definition mockExtractRationales :: "(nat \<Rightarrow> string) \<Rightarrow> Date \<Rightarrow> string \<Rightarrow> PendingRationale list" where
  "mockExtractRationales ids now text =
     (let sections = extractSections text;
          rats = fallbackRationales ids now text
      in if length rats = 0 \<and> length (trim text) > 0
         then (let content = (case map_of sections ''Executive Summary'' of
                                None \<Rightarrow> substring text 0 500
                              | Some execSummary \<Rightarrow>
                                  if execSummary \<noteq> [] then execSummary
                                  else substring text 0 500)
               in rats @
                    [\<lparr> pend_id = ids (length rats),
                       pend_title = ''Approval Rationale'',
                       pend_description =
                         trim (substring content 0 350)
                         @ (if length content > 350 then ''...'' else []),
                       extractedAt = now,
                       sourceText = content \<rparr>])
         else rats)"

section \<open>ISO-8601 text of a date\<close>

text \<open>
  A \<open>Date\<close> holds a time value of at most 8.64e15 ms in absolute value; beyond that range
  there is only the Invalid Date, on which \<open>toISOString\<close> throws a RangeError.
\<close>

datatype jsError = RangeError | TypeError | SyntaxError

definition validTime :: "int \<Rightarrow> bool" where
  "validTime t = (- 8640000000000000 \<le> t \<and> t \<le> 8640000000000000)"

definition HourFromTime :: "int \<Rightarrow> int" where
  "HourFromTime t = (t div 3600000) mod 24"

definition MinFromTime :: "int \<Rightarrow> int" where
  "MinFromTime t = (t div 60000) mod 60"

definition SecFromTime :: "int \<Rightarrow> int" where
  "SecFromTime t = (t div 1000) mod 60"

definition msFromTime :: "int \<Rightarrow> int" where
  "msFromTime t = t mod 1000"

text \<open>The decimal numeral of \<open>n\<close> in exactly \<open>w\<close> digits, with leading zeros.\<close>

fun padDigits :: "nat \<Rightarrow> nat \<Rightarrow> string" where
  "padDigits 0 n = []"
| "padDigits (Suc w) n = padDigits w (n div 10) @ [digitChar (n mod 10)]"

text \<open>
  \<open>toISOString\<close>: \<open>YYYY-MM-DDTHH:mm:ss.sssZ\<close> in UTC, the year in four digits from 0 to
  9999 and otherwise in six digits after its sign.
\<close>

definition isoYear :: "int \<Rightarrow> string" where
  "isoYear y =
     (if 0 \<le> y \<and> y \<le> 9999 then padDigits 4 (nat y)
      else if y < 0 then CHR ''-'' # padDigits 6 (nat (- y))
      else CHR ''+'' # padDigits 6 (nat y))"

definition isoText :: "Date \<Rightarrow> string" where
  "isoText d =
     isoYear (YearFromTime d)
     @ CHR ''-'' # padDigits 2 (nat (MonthFromTime d + 1))
     @ CHR ''-'' # padDigits 2 (nat (DateFromTime d))
     @ CHR ''T'' # padDigits 2 (nat (HourFromTime d))
     @ CHR '':'' # padDigits 2 (nat (MinFromTime d))
     @ CHR '':'' # padDigits 2 (nat (SecFromTime d))
     @ CHR ''.'' # padDigits 3 (nat (msFromTime d))
     @ ''Z''"

definition toISOString :: "Date \<Rightarrow> jsError + string" where
  "toISOString d = (if \<not> validTime d then Inl RangeError else Inr (isoText d))"

definition isDigit :: "char \<Rightarrow> bool" where
  "isDigit c = (let n = (of_char c :: nat) in 48 \<le> n \<and> n \<le> 57)"

definition digitValue :: "char \<Rightarrow> nat" where
  "digitValue c = of_char c - 48"

text \<open>Reads exactly \<open>w\<close> digits; gives their value and the rest of the text.\<close>

fun readDigits :: "nat \<Rightarrow> string \<Rightarrow> (nat \<times> string) option" where
  "readDigits 0 s = Some (0, s)"
| "readDigits (Suc w) s =
     (case readDigits w s of
        None \<Rightarrow> None
      | Some (v, rest) \<Rightarrow>
          (case rest of
             [] \<Rightarrow> None
           | c # cs \<Rightarrow> if isDigit c then Some (10 * v + digitValue c, cs) else None))"

definition expect :: "char \<Rightarrow> string \<Rightarrow> string option" where
  "expect c s = (case s of [] \<Rightarrow> None | x # xs \<Rightarrow> if x = c then Some xs else None)"

definition DaysInMonth :: "int \<Rightarrow> int \<Rightarrow> int" where
  "DaysInMonth y m = monthStart (leapDays y) (m + 1) - monthStart (leapDays y) m"

definition MakeDay :: "int \<Rightarrow> int \<Rightarrow> int \<Rightarrow> int" where
  "MakeDay y m dt =
     (let ym = y + m div 12; mn = m mod 12
      in DayFromYear ym + monthStart (leapDays ym) mn + dt - 1)"

definition MakeTime :: "int \<Rightarrow> int \<Rightarrow> int \<Rightarrow> int \<Rightarrow> int" where
  "MakeTime h m s ms = h * 3600000 + m * 60000 + s * 1000 + ms"

definition MakeDate :: "int \<Rightarrow> int \<Rightarrow> int" where
  "MakeDate dy tm = dy * msPerDay + tm"

definition TimeClip :: "int \<Rightarrow> int option" where
  "TimeClip t = (if validTime t then Some t else None)"

text \<open>The year: its value, whether it is a year, and the rest of the text.\<close>

definition readYear :: "string \<Rightarrow> (int \<times> bool \<times> string) option" where
  "readYear s =
     (case s of
        [] \<Rightarrow> None
      | c # cs \<Rightarrow>
          if c = CHR ''+'' then map_option (\<lambda>(v, r). (int v, True, r)) (readDigits 6 cs)
          else if c = CHR ''-'' then map_option (\<lambda>(v, r). (- int v, 0 < v, r)) (readDigits 6 cs)
          else map_option (\<lambda>(v, r). (int v, True, r)) (readDigits 4 s))"

text \<open>
  \<open>new Date(text)\<close> for a text in the format that \<open>toISOString\<close> writes, with every field
  in its range (the day within the length of the month; 24:00:00.000 closes a day; the
  year \<open>-000000\<close> is no year). \<open>None\<close> is the Invalid Date. Texts in the other formats
  that a host accepts (a date alone, a zone offset, the formats of \<open>toString\<close>) are
  outside the model and read as \<open>None\<close> too.
\<close>

definition parseISO :: "string \<Rightarrow> Date option" where
  "parseISO s =
     (case readYear s of
        None \<Rightarrow> None
      | Some (y, yearOk, s1) \<Rightarrow>
     (case Option.bind (expect CHR ''-'' s1) (readDigits 2) of
        None \<Rightarrow> None
      | Some (mo, s2) \<Rightarrow>
     (case Option.bind (expect CHR ''-'' s2) (readDigits 2) of
        None \<Rightarrow> None
      | Some (dt, s3) \<Rightarrow>
     (case Option.bind (expect CHR ''T'' s3) (readDigits 2) of
        None \<Rightarrow> None
      | Some (h, s4) \<Rightarrow>
     (case Option.bind (expect CHR '':'' s4) (readDigits 2) of
        None \<Rightarrow> None
      | Some (mi, s5) \<Rightarrow>
     (case Option.bind (expect CHR '':'' s5) (readDigits 2) of
        None \<Rightarrow> None
      | Some (sec, s6) \<Rightarrow>
     (case Option.bind (expect CHR ''.'' s6) (readDigits 3) of
        None \<Rightarrow> None
      | Some (ms, s7) \<Rightarrow>
          if s7 = ''Z'' \<and> yearOk
             \<and> 1 \<le> mo \<and> mo \<le> 12
             \<and> 1 \<le> dt \<and> int dt \<le> DaysInMonth y (int mo - 1)
             \<and> (h \<le> 23 \<or> (h = 24 \<and> mi = 0 \<and> sec = 0 \<and> ms = 0))
             \<and> mi \<le> 59 \<and> sec \<le> 59
          then TimeClip (MakeDate (MakeDay y (int mo - 1) (int dt))
                                  (MakeTime (int h) (int mi) (int sec) (int ms)))
          else None)))))))"

section \<open>JSON text\<close>

text \<open>
  The values that \<open>JSON.stringify\<close> writes for a snapshot and \<open>JSON.parse\<close> reads back:
  null, booleans, strings, arrays and objects, an object being the list of its members
  in the order of the text. Numbers do not occur in a snapshot and are left out of the
  model: \<open>JSON_parse\<close> gives \<open>None\<close>, the SyntaxError, on a text with a number, and on a
  unicode escape of a code unit above 255.
\<close>

datatype json =
    JNull
  | JBool bool
  | JString string
  | JArray "json list"
  | JObject "(string \<times> json) list"

definition hexDigit :: "nat \<Rightarrow> char" where
  "hexDigit k = (if k < 10 then char_of (48 + k) else char_of (87 + k))"

definition hexValue :: "char \<Rightarrow> nat option" where
  "hexValue c =
     (let n = (of_char c :: nat)
      in if 48 \<le> n \<and> n \<le> 57 then Some (n - 48)
         else if 97 \<le> n \<and> n \<le> 102 then Some (n - 87)
         else if 65 \<le> n \<and> n \<le> 70 then Some (n - 55)
         else None)"

text \<open>
  A string between double quotes (code 34): the quote, the backslash (code 92) and the
  control characters are escaped, a control character without a short escape by its
  four hexadecimal digits after a backslash and \<open>u\<close>.
\<close>

definition escapeChar :: "char \<Rightarrow> string" where
  "escapeChar c =
     (let n = (of_char c :: nat)
      in if n = 34 then [CHR 0x5C, CHR 0x22]
         else if n = 92 then [CHR 0x5C, CHR 0x5C]
         else if n = 8 then [CHR 0x5C, CHR ''b'']
         else if n = 12 then [CHR 0x5C, CHR ''f'']
         else if n = 10 then [CHR 0x5C, CHR ''n'']
         else if n = 13 then [CHR 0x5C, CHR ''r'']
         else if n = 9 then [CHR 0x5C, CHR ''t'']
         else if n < 32
           then [CHR 0x5C, CHR ''u'', CHR ''0'', CHR ''0'', hexDigit (n div 16), hexDigit (n mod 16)]
         else [c])"

definition quoteString :: "string \<Rightarrow> string" where
  "quoteString s = CHR 0x22 # concat (map escapeChar s) @ [CHR 0x22]"

fun JSON_stringify :: "json \<Rightarrow> string"
  and stringifyElements :: "json list \<Rightarrow> string"
  and stringifyMembers :: "(string \<times> json) list \<Rightarrow> string" where
  "JSON_stringify JNull = ''null''"
| "JSON_stringify (JBool b) = (if b then ''true'' else ''false'')"
| "JSON_stringify (JString s) = quoteString s"
| "JSON_stringify (JArray xs) = CHR ''['' # stringifyElements xs @ '']''"
| "JSON_stringify (JObject ms) = CHR ''{'' # stringifyMembers ms @ ''}''"
| "stringifyElements [] = []"
| "stringifyElements [x] = JSON_stringify x"
| "stringifyElements (x # y # ys) = JSON_stringify x @ CHR '','' # stringifyElements (y # ys)"
| "stringifyMembers [] = []"
| "stringifyMembers [(k, v)] = quoteString k @ CHR '':'' # JSON_stringify v"
| "stringifyMembers ((k, v) # m # ms) =
     quoteString k @ CHR '':'' # JSON_stringify v @ CHR '','' # stringifyMembers (m # ms)"

definition unescapeChar :: "char \<Rightarrow> char option" where
  "unescapeChar e =
     (if e = CHR 0x22 then Some (CHR 0x22)
      else if e = CHR 0x5C then Some (CHR 0x5C)
      else if e = CHR ''/'' then Some CHR ''/''
      else if e = CHR ''b'' then Some (CHR 0x08)
      else if e = CHR ''f'' then Some (CHR 0x0C)
      else if e = CHR ''n'' then Some (CHR 0x0A)
      else if e = CHR ''r'' then Some (CHR 0x0D)
      else if e = CHR ''t'' then Some (CHR 0x09)
      else None)"

definition hex4 :: "char \<Rightarrow> char \<Rightarrow> char \<Rightarrow> char \<Rightarrow> nat option" where
  "hex4 h1 h2 h3 h4 =
     (case (hexValue h1, hexValue h2, hexValue h3, hexValue h4) of
        (Some a, Some b, Some c, Some d) \<Rightarrow> Some (((a * 16 + b) * 16 + c) * 16 + d)
      | _ \<Rightarrow> None)"

text \<open>The characters of a string after its opening quote, and the text after its end.\<close>

fun parseChars :: "string \<Rightarrow> (string \<times> string) option" where
  "parseChars [] = None"
| "parseChars (c # cs) =
     (if c = CHR 0x22 then Some ([], cs)
      else if c = CHR 0x5C then
        (case cs of
           [] \<Rightarrow> None
         | e # es \<Rightarrow>
             if e = CHR ''u'' then
               (case es of
                  h1 # h2 # h3 # h4 # rest \<Rightarrow>
                    (case hex4 h1 h2 h3 h4 of
                       None \<Rightarrow> None
                     | Some n \<Rightarrow>
                         if n < 256
                         then map_option (\<lambda>(str, r). (char_of n # str, r)) (parseChars rest)
                         else None)
                | _ \<Rightarrow> None)
             else (case unescapeChar e of
                     None \<Rightarrow> None
                   | Some ch \<Rightarrow> map_option (\<lambda>(str, r). (ch # str, r)) (parseChars es)))
      else if (of_char c :: nat) < 32 then None
      else map_option (\<lambda>(str, r). (c # str, r)) (parseChars cs))"

definition jsonBlank :: "char \<Rightarrow> bool" where
  "jsonBlank c = (c = CHR '' '' \<or> c = CHR 0x09 \<or> c = CHR 0x0A \<or> c = CHR 0x0D)"

definition skipBlanks :: "string \<Rightarrow> string" where
  "skipBlanks s = dropWhile jsonBlank s"

text \<open>
  A recursive-descent reader. Each call takes one unit of fuel, and \<open>JSON_parse\<close> gives
  it more than the text has characters, which is enough for any text that
  \<open>JSON_stringify\<close> writes. A value is read with the rest of the text; the elements of
  an array and the members of an object are read up to the closing bracket.
\<close>

fun parseValue :: "nat \<Rightarrow> string \<Rightarrow> (json \<times> string) option"
  and parseElements :: "nat \<Rightarrow> string \<Rightarrow> (json list \<times> string) option"
  and parseMembers :: "nat \<Rightarrow> string \<Rightarrow> ((string \<times> json) list \<times> string) option" where
  "parseValue 0 s = None"
| "parseValue (Suc f) s =
     (case skipBlanks s of
        [] \<Rightarrow> None
      | c # cs \<Rightarrow>
          if c = CHR 0x22 then map_option (\<lambda>(str, r). (JString str, r)) (parseChars cs)
          else if c = CHR ''['' then
            (case skipBlanks cs of
               [] \<Rightarrow> None
             | d # ds \<Rightarrow>
                 if d = CHR '']'' then Some (JArray [], ds)
                 else map_option (\<lambda>(xs, r). (JArray xs, r)) (parseElements f cs))
          else if c = CHR ''{'' then
            (case skipBlanks cs of
               [] \<Rightarrow> None
             | d # ds \<Rightarrow>
                 if d = CHR ''}'' then Some (JObject [], ds)
                 else map_option (\<lambda>(ms, r). (JObject ms, r)) (parseMembers f cs))
          else if take 4 (c # cs) = ''null'' then Some (JNull, drop 4 (c # cs))
          else if take 4 (c # cs) = ''true'' then Some (JBool True, drop 4 (c # cs))
          else if take 5 (c # cs) = ''false'' then Some (JBool False, drop 5 (c # cs))
          else None)"
| "parseElements 0 s = None"
| "parseElements (Suc f) s =
     (case parseValue f s of
        None \<Rightarrow> None
      | Some (v, r) \<Rightarrow>
          (case skipBlanks r of
             [] \<Rightarrow> None
           | c # cs \<Rightarrow>
               if c = CHR '','' then map_option (\<lambda>(xs, r'). (v # xs, r')) (parseElements f cs)
               else if c = CHR '']'' then Some ([v], cs)
               else None))"
| "parseMembers 0 s = None"
| "parseMembers (Suc f) s =
     (case skipBlanks s of
        [] \<Rightarrow> None
      | q # qs \<Rightarrow>
          if q \<noteq> CHR 0x22 then None
          else (case parseChars qs of
                  None \<Rightarrow> None
                | Some (k, r) \<Rightarrow>
                    (case skipBlanks r of
                       [] \<Rightarrow> None
                     | c # cs \<Rightarrow>
                         if c \<noteq> CHR '':'' then None
                         else (case parseValue f cs of
                                 None \<Rightarrow> None
                               | Some (v, r') \<Rightarrow>
                                   (case skipBlanks r' of
                                      [] \<Rightarrow> None
                                    | d # ds \<Rightarrow>
                                        if d = CHR '','' then
                                          map_option (\<lambda>(ms, r''). ((k, v) # ms, r''))
                                            (parseMembers f ds)
                                        else if d = CHR ''}'' then Some ([(k, v)], ds)
                                        else None)))))"

definition JSON_parse :: "string \<Rightarrow> json option" where
  "JSON_parse s =
     (case parseValue (Suc (length s)) s of
        None \<Rightarrow> None
      | Some (v, r) \<Rightarrow> if skipBlanks r = [] then Some v else None)"

text \<open>The fuel that reading the text of a value takes.\<close>

fun valueFuel :: "json \<Rightarrow> nat"
  and elementsFuel :: "json list \<Rightarrow> nat"
  and membersFuel :: "(string \<times> json) list \<Rightarrow> nat" where
  "valueFuel JNull = 1"
| "valueFuel (JBool b) = 1"
| "valueFuel (JString s) = 1"
| "valueFuel (JArray xs) = Suc (elementsFuel xs)"
| "valueFuel (JObject ms) = Suc (membersFuel ms)"
| "elementsFuel [] = 0"
| "elementsFuel (x # xs) = Suc (max (valueFuel x) (elementsFuel xs))"
| "membersFuel [] = 0"
| "membersFuel ((k, v) # ms) = Suc (max (valueFuel v) (membersFuel ms))"

section \<open>Persistence of the cockpit state (context/LoanCockpitContext.tsx)\<close>

text \<open>
  \<open>serializeState\<close> builds an object from the state, every date replaced by its
  \<open>toISOString()\<close>, and writes it with \<open>JSON.stringify\<close>. A \<open>toISOString\<close> that throws
  ends the whole call, and the first one in the order of evaluation does: \<open>collect\<close>
  gives the results of a \<open>map\<close>, or its first error. The members of an object are
  written in the order of the interface.
\<close>

fun collect :: "(jsError + 'a) list \<Rightarrow> jsError + 'a list" where
  "collect [] = Inr []"
| "collect (x # xs) =
     (case x of
        Inl e \<Rightarrow> Inl e
      | Inr v \<Rightarrow> (case collect xs of Inl e \<Rightarrow> Inl e | Inr vs \<Rightarrow> Inr (v # vs)))"

fun dataSource_text :: "DataSource \<Rightarrow> string" where
  "dataSource_text SourceNone = ''none''"
| "dataSource_text SourceDemo = ''demo''"
| "dataSource_text SourceExtracted = ''extracted''"

definition signalToJson :: "ContextualSignal \<Rightarrow> jsError + json" where
  "signalToJson s =
     (case toISOString (updatedAt s) of
        Inl e \<Rightarrow> Inl e
      | Inr updated \<Rightarrow>
          Inr (JObject [(''id'', JString (sig_id s)),
                        (''description'', JString (sig_description s)),
                        (''updatedAt'', JString updated)]))"

definition rationaleToJson :: "Rationale \<Rightarrow> jsError + json" where
  "rationaleToJson r =
     (case toISOString (createdAt r) of
        Inl e \<Rightarrow> Inl e
      | Inr created \<Rightarrow>
     (case toISOString (lastReviewedAt r) of
        Inl e \<Rightarrow> Inl e
      | Inr reviewed \<Rightarrow>
     (case collect (map signalToJson (contextualSignals r)) of
        Inl e \<Rightarrow> Inl e
      | Inr signals \<Rightarrow>
          Inr (JObject [(''id'', JString (rat_id r)),
                        (''title'', JString (rat_title r)),
                        (''description'', JString (rat_description r)),
                        (''createdAt'', JString created),
                        (''lastReviewedAt'', JString reviewed),
                        (''status'', JString (status_text (status r))),
                        (''contextualSignals'', JArray signals)]))))"

definition pendingToJson :: "PendingRationale \<Rightarrow> jsError + json" where
  "pendingToJson p =
     (case toISOString (extractedAt p) of
        Inl e \<Rightarrow> Inl e
      | Inr extracted \<Rightarrow>
          Inr (JObject [(''id'', JString (pend_id p)),
                        (''title'', JString (pend_title p)),
                        (''description'', JString (pend_description p)),
                        (''extractedAt'', JString extracted),
                        (''sourceText'', JString (sourceText p))]))"

definition loanToJson :: "LoanInfo option \<Rightarrow> jsError + json" where
  "loanToJson l =
     (case l of
        None \<Rightarrow> Inr JNull
      | Some info \<Rightarrow>
          (case toISOString (approvalDate info) of
             Inl e \<Rightarrow> Inl e
           | Inr approved \<Rightarrow>
               Inr (JObject [(''id'', JString (loan_id info)),
                             (''approvalDate'', JString approved),
                             (''borrowerReference'', JString (borrowerReference info))])))"

definition serializeState :: "LoanCockpitState \<Rightarrow> jsError + string" where
  "serializeState state =
     (case loanToJson (loan state) of
        Inl e \<Rightarrow> Inl e
      | Inr loanJson \<Rightarrow>
     (case collect (map rationaleToJson (rationales state)) of
        Inl e \<Rightarrow> Inl e
      | Inr rationalesJson \<Rightarrow>
     (case collect (map pendingToJson (pendingRationales state)) of
        Inl e \<Rightarrow> Inl e
      | Inr pendingJson \<Rightarrow>
          Inr (JSON_stringify
                 (JObject [(''loan'', loanJson),
                           (''rationales'', JArray rationalesJson),
                           (''pendingRationales'', JArray pendingJson),
                           (''isExtracting'', JBool (isExtracting state)),
                           (''showConfirmation'', JBool (showConfirmation state)),
                           (''dataSource'', JString (dataSource_text (dataSource state)))])))))"

text \<open>
  \<open>deserializeState\<close> reads the properties of whatever \<open>JSON.parse\<close> returns. Its result
  is \<open>Inl\<close> of the error that is thrown (the SyntaxError of \<open>JSON.parse\<close>; a TypeError for
  a property read of \<open>null\<close> and for \<open>map\<close> called on what is no array), \<open>Inr None\<close> when
  an object is returned that is no \<open>LoanCockpitState\<close> (a property is missing or of
  another type, or a date is the Invalid Date), and \<open>Inr (Some state)\<close> otherwise. A
  thrown error wins over an ill-typed property wherever they occur: \<open>collectTyped\<close>
  gives the first error of a \<open>map\<close>, else \<open>None\<close> if a result is ill-typed.

  The value of a property is \<open>None\<close> when the object has no such property (\<open>undefined\<close>);
  of members with the same name, the last one counts.
\<close>

definition getField :: "(string \<times> json) list \<Rightarrow> string \<Rightarrow> json option" where
  "getField ms k = map_of (rev ms) k"

definition truthy :: "json option \<Rightarrow> bool" where
  "truthy v =
     (case v of
        None \<Rightarrow> False
      | Some JNull \<Rightarrow> False
      | Some (JBool b) \<Rightarrow> b
      | Some (JString s) \<Rightarrow> s \<noteq> []
      | Some (JArray xs) \<Rightarrow> True
      | Some (JObject ms) \<Rightarrow> True)"

text \<open>
  \<open>new Date(value)\<close>: a string is parsed, \<open>null\<close> and the booleans count as the numbers
  0 and 1, \<open>undefined\<close> gives the Invalid Date. An array or an object is converted to a
  string first; its date is outside the model and reads as the Invalid Date.
\<close>

definition newDate :: "json option \<Rightarrow> Date option" where
  "newDate v =
     (case v of
        None \<Rightarrow> None
      | Some JNull \<Rightarrow> Some 0
      | Some (JBool b) \<Rightarrow> Some (if b then 1 else 0)
      | Some (JString s) \<Rightarrow> parseISO s
      | Some (JArray xs) \<Rightarrow> None
      | Some (JObject ms) \<Rightarrow> None)"

definition readString :: "json option \<Rightarrow> string option" where
  "readString v = (case v of Some (JString s) \<Rightarrow> Some s | _ \<Rightarrow> None)"

definition readBool :: "json option \<Rightarrow> bool option" where
  "readBool v = (case v of Some (JBool b) \<Rightarrow> Some b | _ \<Rightarrow> None)"

definition readStatus :: "json option \<Rightarrow> RationaleStatus option" where
  "readStatus v =
     (case readString v of
        None \<Rightarrow> None
      | Some s \<Rightarrow>
          if s = ''Fresh'' then Some Fresh
          else if s = ''Review Due'' then Some ReviewDue
          else if s = ''Stale'' then Some Stale
          else None)"

text \<open>\<open>parsed.dataSource || 'none'\<close>.\<close>

definition readDataSource :: "json option \<Rightarrow> DataSource option" where
  "readDataSource v =
     (if truthy v
      then (case readString v of
              None \<Rightarrow> None
            | Some s \<Rightarrow>
                if s = ''none'' then Some SourceNone
                else if s = ''demo'' then Some SourceDemo
                else if s = ''extracted'' then Some SourceExtracted
                else None)
      else Some SourceNone)"

fun collectTyped :: "(jsError + 'a option) list \<Rightarrow> jsError + 'a list option" where
  "collectTyped [] = Inr (Some [])"
| "collectTyped (x # xs) =
     (case x of
        Inl e \<Rightarrow> Inl e
      | Inr v \<Rightarrow>
          (case collectTyped xs of
             Inl e \<Rightarrow> Inl e
           | Inr vs \<Rightarrow> Inr (Option.bind v (\<lambda>a. map_option (\<lambda>as. a # as) vs))))"

definition signalFromJson :: "json \<Rightarrow> jsError + ContextualSignal option" where
  "signalFromJson s =
     (case s of
        JNull \<Rightarrow> Inl TypeError
      | JObject ms \<Rightarrow>
          Inr (Option.bind (readString (getField ms ''id'')) (\<lambda>i.
               Option.bind (readString (getField ms ''description'')) (\<lambda>d.
               Option.bind (newDate (getField ms ''updatedAt'')) (\<lambda>u.
               Some \<lparr> sig_id = i, sig_description = d, updatedAt = u \<rparr>))))
      | _ \<Rightarrow> Inr None)"

definition rationaleFromJson :: "json \<Rightarrow> jsError + Rationale option" where
  "rationaleFromJson r =
     (case r of
        JObject ms \<Rightarrow>
          (case getField ms ''contextualSignals'' of
             Some (JArray signals) \<Rightarrow>
               (case collectTyped (map signalFromJson signals) of
                  Inl e \<Rightarrow> Inl e
                | Inr typedSignals \<Rightarrow>
                    Inr (Option.bind (readString (getField ms ''id'')) (\<lambda>i.
                         Option.bind (readString (getField ms ''title'')) (\<lambda>t.
                         Option.bind (readString (getField ms ''description'')) (\<lambda>d.
                         Option.bind (newDate (getField ms ''createdAt'')) (\<lambda>c.
                         Option.bind (newDate (getField ms ''lastReviewedAt'')) (\<lambda>l.
                         Option.bind (readStatus (getField ms ''status'')) (\<lambda>st.
                         Option.bind typedSignals (\<lambda>sigs.
                         Some \<lparr> rat_id = i, rat_title = t, rat_description = d,
                                createdAt = c, lastReviewedAt = l, status = st,
                                contextualSignals = sigs \<rparr>)))))))))
           | _ \<Rightarrow> Inl TypeError)
      | _ \<Rightarrow> Inl TypeError)"

definition pendingFromJson :: "json \<Rightarrow> jsError + PendingRationale option" where
  "pendingFromJson p =
     (case p of
        JNull \<Rightarrow> Inl TypeError
      | JObject ms \<Rightarrow>
          Inr (Option.bind (readString (getField ms ''id'')) (\<lambda>i.
               Option.bind (readString (getField ms ''title'')) (\<lambda>t.
               Option.bind (readString (getField ms ''description'')) (\<lambda>d.
               Option.bind (newDate (getField ms ''extractedAt'')) (\<lambda>e.
               Option.bind (readString (getField ms ''sourceText'')) (\<lambda>src.
               Some \<lparr> pend_id = i, pend_title = t, pend_description = d,
                      extractedAt = e, sourceText = src \<rparr>))))))
      | _ \<Rightarrow> Inr None)"

text \<open>\<open>parsed.loan ? { ...parsed.loan, approvalDate: new Date(...) } : null\<close>.\<close>

definition loanFromJson :: "json option \<Rightarrow> LoanInfo option option" where
  "loanFromJson v =
     (if truthy v
      then (case v of
              Some (JObject ms) \<Rightarrow>
                Option.bind (readString (getField ms ''id'')) (\<lambda>i.
                Option.bind (newDate (getField ms ''approvalDate'')) (\<lambda>a.
                Option.bind (readString (getField ms ''borrowerReference'')) (\<lambda>b.
                Some (Some \<lparr> loan_id = i, approvalDate = a, borrowerReference = b \<rparr>))))
            | _ \<Rightarrow> None)
      else Some None)"

definition stateFromJson :: "json \<Rightarrow> jsError + LoanCockpitState option" where
  "stateFromJson parsed =
     (case parsed of
        JObject ms \<Rightarrow>
          (case getField ms ''rationales'' of
             Some (JArray rs) \<Rightarrow>
               (case collectTyped (map rationaleFromJson rs) of
                  Inl e \<Rightarrow> Inl e
                | Inr typedRationales \<Rightarrow>
                    (case getField ms ''pendingRationales'' of
                       Some (JArray ps) \<Rightarrow>
                         (case collectTyped (map pendingFromJson ps) of
                            Inl e \<Rightarrow> Inl e
                          | Inr typedPending \<Rightarrow>
                              Inr (Option.bind (loanFromJson (getField ms ''loan'')) (\<lambda>l.
                                   Option.bind typedRationales (\<lambda>rats.
                                   Option.bind typedPending (\<lambda>pend.
                                   Option.bind (readBool (getField ms ''isExtracting'')) (\<lambda>ex.
                                   Option.bind (readBool (getField ms ''showConfirmation'')) (\<lambda>sc.
                                   Option.bind (readDataSource (getField ms ''dataSource'')) (\<lambda>ds.
                                   Some \<lparr> loan = l, rationales = rats,
                                          pendingRationales = pend, isExtracting = ex,
                                          showConfirmation = sc, dataSource = ds \<rparr>))))))))
                     | _ \<Rightarrow> Inl TypeError))
           | _ \<Rightarrow> Inl TypeError)
      | _ \<Rightarrow> Inl TypeError)"

definition deserializeState :: "string \<Rightarrow> jsError + LoanCockpitState option" where
  "deserializeState text =
     (case JSON_parse text of
        None \<Rightarrow> Inl SyntaxError
      | Some parsed \<Rightarrow> stateFromJson parsed)"

text \<open>The states whose dates all have a time value that a \<open>Date\<close> can hold.\<close>

definition validRationale :: "Rationale \<Rightarrow> bool" where
  "validRationale r =
     (validTime (createdAt r) \<and> validTime (lastReviewedAt r)
      \<and> list_all (\<lambda>s. validTime (updatedAt s)) (contextualSignals r))"

definition validState :: "LoanCockpitState \<Rightarrow> bool" where
  "validState state =
     ((case loan state of None \<Rightarrow> True | Some info \<Rightarrow> validTime (approvalDate info))
      \<and> list_all validRationale (rationales state)
      \<and> list_all (\<lambda>p. validTime (extractedAt p)) (pendingRationales state))"

section \<open>Properties of the staleness calculator\<close>

lemma getDaysSinceReview_div:
  "getDaysSinceReview l n = (n - l) div 86400000"
  by (simp add: getDaysSinceReview_def getTime_def)

lemma getDaysSinceReview_offset:
  assumes "0 \<le> r" and "r < 86400000"
  shows "getDaysSinceReview l (l + k * 86400000 + r) = k"
proof -
  have "(k * 86400000 + r) div 86400000 = k"
    using assms by (simp add: div_pos_pos_trivial)
  then show ?thesis
    by (simp add: getDaysSinceReview_div)
qed

text \<open>
  C1. \<open>calculateStatus\<close> returns Fresh when the elapsed whole days are at most 30,
  Review Due when they are between 31 and 90, and Stale when they exceed 90. A review
  that lies exactly 30, 31, 90 or 91 days back (plus any part \<open>r\<close> of a further day)
  gives Fresh, Review Due, Review Due and Stale.
\<close>

theorem calculateStatus_tiers:
  assumes "0 \<le> r" and "r < 86400000"
  shows "(getDaysSinceReview l n \<le> 30 \<longrightarrow> calculateStatus l n = Fresh)
       \<and> (31 \<le> getDaysSinceReview l n \<and> getDaysSinceReview l n \<le> 90
            \<longrightarrow> calculateStatus l n = ReviewDue)
       \<and> (90 < getDaysSinceReview l n \<longrightarrow> calculateStatus l n = Stale)
       \<and> calculateStatus l (l + 30 * 86400000 + r) = Fresh
       \<and> calculateStatus l (l + 31 * 86400000 + r) = ReviewDue
       \<and> calculateStatus l (l + 90 * 86400000 + r) = ReviewDue
       \<and> calculateStatus l (l + 91 * 86400000 + r) = Stale"
proof -
  have tiers: "calculateStatus a b =
      (if getDaysSinceReview a b \<le> 30 then Fresh
       else if getDaysSinceReview a b \<le> 90 then ReviewDue else Stale)" for a b
    by (simp add: calculateStatus_def Let_def FRESH_THRESHOLD_DAYS_def
        REVIEW_DUE_THRESHOLD_DAYS_def)
  have d: "getDaysSinceReview l (l + k * 86400000 + r) = k" for k
    using assms by (rule getDaysSinceReview_offset)
  have b30: "calculateStatus l (l + 30 * 86400000 + r) = Fresh"
    unfolding tiers d by simp
  have b31: "calculateStatus l (l + 31 * 86400000 + r) = ReviewDue"
    unfolding tiers d by simp
  have b90: "calculateStatus l (l + 90 * 86400000 + r) = ReviewDue"
    unfolding tiers d by simp
  have b91: "calculateStatus l (l + 91 * 86400000 + r) = Stale"
    unfolding tiers d by simp
  have general: "(getDaysSinceReview l n \<le> 30 \<longrightarrow> calculateStatus l n = Fresh)
       \<and> (31 \<le> getDaysSinceReview l n \<and> getDaysSinceReview l n \<le> 90
            \<longrightarrow> calculateStatus l n = ReviewDue)
       \<and> (90 < getDaysSinceReview l n \<longrightarrow> calculateStatus l n = Stale)"
    by (simp add: tiers)
  from general b30 b31 b90 b91 show ?thesis
    by blast
qed

theorem calculateStatus_tiers_witness:
  "calculateStatus 1717200000000 1719792000000 = Fresh
   \<and> calculateStatus 1717200000000 1719878400000 = ReviewDue
   \<and> calculateStatus 1717200000000 1724976000000 = ReviewDue
   \<and> calculateStatus 1717200000000 1725062400000 = Stale
   \<and> getDaysSinceReview 1717200000000 1725062400000 = 91"
  using calculateStatus_tiers [of 0 1717200000000 1725062400000]
  by (simp add: getDaysSinceReview_div)

section \<open>Properties of the confirmation and review actions\<close>

lemma calculateStatus_same: "calculateStatus t t = Fresh"
  by (simp add: calculateStatus_def getDaysSinceReview_div FRESH_THRESHOLD_DAYS_def)

lemma reducer_confirm_eq:
  "loanCockpitReducer now s (CONFIRM_RATIONALE p) =
     s \<lparr> rationales := rationales s @ [confirmPendingRationale p now],
         pendingRationales := rejectPendingRationale (pendingRationales s) (pend_id p),
         showConfirmation := (length (pendingRationales s) > 1) \<rparr>"
  by (simp add: confirmPendingRationale_def rejectPendingRationale_def)

text \<open>
  C6. \<open>confirmPendingRationale\<close> returns a rationale created and last reviewed at the
  confirm time, with the status \<open>calculateStatus confirmTime confirmTime\<close>, which is
  Fresh, and no contextual signals; \<open>confirmAllPendingRationales\<close> confirms every element
  of the pending list, in the order of the list.
\<close>

theorem confirmPendingRationale_contract:
  "createdAt (confirmPendingRationale p t) = t
   \<and> lastReviewedAt (confirmPendingRationale p t) = t
   \<and> status (confirmPendingRationale p t) = calculateStatus t t
   \<and> calculateStatus t t = Fresh
   \<and> contextualSignals (confirmPendingRationale p t) = []
   \<and> length (confirmAllPendingRationales ps t) = length ps
   \<and> (\<forall>i < length ps.
         confirmAllPendingRationales ps t ! i = confirmPendingRationale (ps ! i) t)"
  by (simp add: confirmPendingRationale_def confirmAllPendingRationales_def
      calculateStatus_same)

theorem confirmPendingRationale_contract_witness:
  "status (confirmPendingRationale
       \<lparr> pend_id = ''rat-2'', pend_title = ''Asset Coverage'',
         pend_description = ''Collateral covers the facility'', extractedAt = 1735344000000,
         sourceText = ''Collateral covers the facility twice over'' \<rparr> 1735387200000) = Fresh
   \<and> confirmAllPendingRationales
        [\<lparr> pend_id = ''rat-1'', pend_title = ''Cash Flow'',
           pend_description = ''Stable cash flow'', extractedAt = 1735344000000,
           sourceText = ''Stable cash flow over three years'' \<rparr>,
         \<lparr> pend_id = ''rat-2'', pend_title = ''Asset Coverage'',
           pend_description = ''Collateral covers the facility'', extractedAt = 1735344000000,
           sourceText = ''Collateral covers the facility twice over'' \<rparr>] 1735387200000 ! 1
      = confirmPendingRationale
          \<lparr> pend_id = ''rat-2'', pend_title = ''Asset Coverage'',
            pend_description = ''Collateral covers the facility'', extractedAt = 1735344000000,
            sourceText = ''Collateral covers the facility twice over'' \<rparr> 1735387200000"
  using confirmPendingRationale_contract
    [of "\<lparr> pend_id = ''rat-2'', pend_title = ''Asset Coverage'',
           pend_description = ''Collateral covers the facility'', extractedAt = 1735344000000,
           sourceText = ''Collateral covers the facility twice over'' \<rparr>"
        1735387200000
        "[\<lparr> pend_id = ''rat-1'', pend_title = ''Cash Flow'',
           pend_description = ''Stable cash flow'', extractedAt = 1735344000000,
           sourceText = ''Stable cash flow over three years'' \<rparr>,
         \<lparr> pend_id = ''rat-2'', pend_title = ''Asset Coverage'',
           pend_description = ''Collateral covers the facility'', extractedAt = 1735344000000,
           sourceText = ''Collateral covers the facility twice over'' \<rparr>]"]
  by simp

text \<open>
  C7. \<open>markRationaleAsReviewed\<close> returns a rationale last reviewed at the review time,
  with the status \<open>calculateStatus reviewTime reviewTime\<close>, which is Fresh; the id, title,
  description, creation time and contextual signals are those of the argument.
\<close>

theorem markRationaleAsReviewed_contract:
  "lastReviewedAt (markRationaleAsReviewed r t) = t
   \<and> status (markRationaleAsReviewed r t) = calculateStatus t t
   \<and> calculateStatus t t = Fresh
   \<and> rat_id (markRationaleAsReviewed r t) = rat_id r
   \<and> rat_title (markRationaleAsReviewed r t) = rat_title r
   \<and> rat_description (markRationaleAsReviewed r t) = rat_description r
   \<and> createdAt (markRationaleAsReviewed r t) = createdAt r
   \<and> contextualSignals (markRationaleAsReviewed r t) = contextualSignals r"
  by (simp add: markRationaleAsReviewed_def calculateStatus_same)

section \<open>Properties of the reducer\<close>

text \<open>
  C2 as stated fails: with two pending rationales, confirming the first leaves one
  pending rationale and the confirmation surface open, while one remaining rationale is
  not more than one.
\<close>

theorem confirm_showConfirmation_counterexample:
  "showConfirmation
     (loanCockpitReducer 1735387200000
        (initialState \<lparr> pendingRationales :=
           [\<lparr> pend_id = ''rat-1'', pend_title = ''Cash Flow'',
              pend_description = ''Stable cash flow'', extractedAt = 1735344000000,
              sourceText = ''Stable cash flow over three years'' \<rparr>,
            \<lparr> pend_id = ''rat-2'', pend_title = ''Asset Coverage'',
              pend_description = ''Collateral covers the facility'',
              extractedAt = 1735344000000,
              sourceText = ''Collateral covers the facility twice over'' \<rparr>],
           showConfirmation := True \<rparr>)
        (CONFIRM_RATIONALE
           \<lparr> pend_id = ''rat-1'', pend_title = ''Cash Flow'',
             pend_description = ''Stable cash flow'', extractedAt = 1735344000000,
             sourceText = ''Stable cash flow over three years'' \<rparr>))
   \<noteq> (length (pendingRationales
     (loanCockpitReducer 1735387200000
        (initialState \<lparr> pendingRationales :=
           [\<lparr> pend_id = ''rat-1'', pend_title = ''Cash Flow'',
              pend_description = ''Stable cash flow'', extractedAt = 1735344000000,
              sourceText = ''Stable cash flow over three years'' \<rparr>,
            \<lparr> pend_id = ''rat-2'', pend_title = ''Asset Coverage'',
              pend_description = ''Collateral covers the facility'',
              extractedAt = 1735344000000,
              sourceText = ''Collateral covers the facility twice over'' \<rparr>],
           showConfirmation := True \<rparr>)
        (CONFIRM_RATIONALE
           \<lparr> pend_id = ''rat-1'', pend_title = ''Cash Flow'',
             pend_description = ''Stable cash flow'', extractedAt = 1735344000000,
             sourceText = ''Stable cash flow over three years'' \<rparr>))) > 1)"
  by (simp add: initialState_def)

text \<open>
  C2, amended. After the ConfirmRationale transition the \<open>showConfirmation\<close> flag equals
  (pending count before the transition > 1). When exactly one pending rationale carries
  the id of the confirmed one, this is (remaining pending count > 0): the confirmation
  surface closes when no pending rationale remains.
\<close>

theorem confirm_showConfirmation:
  "showConfirmation (loanCockpitReducer now s (CONFIRM_RATIONALE p))
     = (length (pendingRationales s) > 1)
   \<and> (length (filter (\<lambda>q. pend_id q = pend_id p) (pendingRationales s)) = 1
        \<longrightarrow> showConfirmation (loanCockpitReducer now s (CONFIRM_RATIONALE p))
            = (length (pendingRationales (loanCockpitReducer now s (CONFIRM_RATIONALE p))) > 0))"
proof -
  let ?ps = "pendingRationales s"
  have split: "length (filter (\<lambda>q. pend_id q = pend_id p) ?ps)
      + length (filter (\<lambda>q. pend_id q \<noteq> pend_id p) ?ps) = length ?ps"
    using sum_length_filter_compl [of "\<lambda>q. pend_id q = pend_id p" ?ps] by simp
  have flag: "showConfirmation (loanCockpitReducer now s (CONFIRM_RATIONALE p))
      = (length ?ps > 1)"
    by simp
  have rest: "pendingRationales (loanCockpitReducer now s (CONFIRM_RATIONALE p))
      = filter (\<lambda>q. pend_id q \<noteq> pend_id p) ?ps"
    by simp
  have one: "length (filter (\<lambda>q. pend_id q = pend_id p) ?ps) = 1
      \<Longrightarrow> (length ?ps > 1) = (length (filter (\<lambda>q. pend_id q \<noteq> pend_id p) ?ps) > 0)"
    using split by arith
  show ?thesis
    unfolding flag rest using one by blast
qed

theorem confirm_showConfirmation_witness:
  "\<not> showConfirmation
     (loanCockpitReducer 1735387200000
        (initialState \<lparr> pendingRationales :=
           [\<lparr> pend_id = ''rat-1'', pend_title = ''Cash Flow'',
              pend_description = ''Stable cash flow'', extractedAt = 1735344000000,
              sourceText = ''Stable cash flow over three years'' \<rparr>],
           showConfirmation := True \<rparr>)
        (CONFIRM_RATIONALE
           \<lparr> pend_id = ''rat-1'', pend_title = ''Cash Flow'',
             pend_description = ''Stable cash flow'', extractedAt = 1735344000000,
             sourceText = ''Stable cash flow over three years'' \<rparr>))
   \<and> length (filter (\<lambda>q. pend_id q = ''rat-1'')
        [\<lparr> pend_id = ''rat-1'', pend_title = ''Cash Flow'',
           pend_description = ''Stable cash flow'', extractedAt = 1735344000000,
           sourceText = ''Stable cash flow over three years'' \<rparr>]) = 1"
  using confirm_showConfirmation
    [of 1735387200000
        "initialState \<lparr> pendingRationales :=
           [\<lparr> pend_id = ''rat-1'', pend_title = ''Cash Flow'',
              pend_description = ''Stable cash flow'', extractedAt = 1735344000000,
              sourceText = ''Stable cash flow over three years'' \<rparr>],
           showConfirmation := True \<rparr>"
        "\<lparr> pend_id = ''rat-1'', pend_title = ''Cash Flow'',
           pend_description = ''Stable cash flow'', extractedAt = 1735344000000,
           sourceText = ''Stable cash flow over three years'' \<rparr>"]
  by (simp add: initialState_def)

text \<open>
  C10. The CONFIRM_RATIONALE transition appends exactly one rationale, the confirmation
  of the payload at the transition's time, to \<open>rationales\<close>, whether or not the payload's
  id occurs among the pending rationales; when it does not occur, \<open>pendingRationales\<close>
  is left as it was. Two transitions with the same payload append two rationales that
  carry the same id.
\<close>

theorem confirm_rationale_appends:
  "rationales (loanCockpitReducer now s (CONFIRM_RATIONALE p))
     = rationales s @ [confirmPendingRationale p now]
   \<and> (pend_id p \<notin> pend_id ` set (pendingRationales s)
        \<longrightarrow> pendingRationales (loanCockpitReducer now s (CONFIRM_RATIONALE p))
            = pendingRationales s)
   \<and> rationales (loanCockpitReducer now2 (loanCockpitReducer now1 s (CONFIRM_RATIONALE p))
        (CONFIRM_RATIONALE p))
     = rationales s @ [confirmPendingRationale p now1, confirmPendingRationale p now2]
   \<and> rat_id (confirmPendingRationale p now1) = pend_id p
   \<and> rat_id (confirmPendingRationale p now2) = pend_id p"
proof -
  have keep: "pend_id p \<notin> pend_id ` set ps
      \<Longrightarrow> filter (\<lambda>q. pend_id q \<noteq> pend_id p) ps = ps" for ps
    by (induction ps) auto
  show ?thesis
    using keep [of "pendingRationales s"]
    by (simp add: reducer_confirm_eq rejectPendingRationale_def confirmPendingRationale_def)
qed

theorem confirm_rationale_appends_witness:
  "pend_id \<lparr> pend_id = ''rat-9'', pend_title = ''Risk Factors'',
       pend_description = ''Key risks are mitigated'', extractedAt = 1735344000000,
       sourceText = ''Key risks are mitigated by covenants'' \<rparr>
     \<notin> pend_id ` set (pendingRationales initialState)
   \<and> pendingRationales (loanCockpitReducer 1735387200000 initialState
        (CONFIRM_RATIONALE
           \<lparr> pend_id = ''rat-9'', pend_title = ''Risk Factors'',
             pend_description = ''Key risks are mitigated'', extractedAt = 1735344000000,
             sourceText = ''Key risks are mitigated by covenants'' \<rparr>)) = []
   \<and> map rat_id (rationales
        (loanCockpitReducer 1735387200001
           (loanCockpitReducer 1735387200000 initialState
              (CONFIRM_RATIONALE
                 \<lparr> pend_id = ''rat-9'', pend_title = ''Risk Factors'',
                   pend_description = ''Key risks are mitigated'',
                   extractedAt = 1735344000000,
                   sourceText = ''Key risks are mitigated by covenants'' \<rparr>))
           (CONFIRM_RATIONALE
              \<lparr> pend_id = ''rat-9'', pend_title = ''Risk Factors'',
                pend_description = ''Key risks are mitigated'', extractedAt = 1735344000000,
                sourceText = ''Key risks are mitigated by covenants'' \<rparr>)))
      = [''rat-9'', ''rat-9'']"
  using confirm_rationale_appends
    [of 1735387200000 initialState
        "\<lparr> pend_id = ''rat-9'', pend_title = ''Risk Factors'',
           pend_description = ''Key risks are mitigated'', extractedAt = 1735344000000,
           sourceText = ''Key risks are mitigated by covenants'' \<rparr>"
        1735387200001 1735387200000]
  by (simp add: initialState_def)

section \<open>Properties of the review summary\<close>

lemma rationalesNeedingReview_eq:
  "rationalesNeedingReview (generateReviewSummary f rs lid now) =
     map (\<lambda>r. \<lparr> item_title = rat_title r, item_status = status r,
                 daysSinceReview = getDaysSinceReview (lastReviewedAt r) now \<rparr>)
         (getRationalesNeedingReview rs)"
  by (simp add: generateReviewSummary_def getRationalesNeedingReview_def Let_def)

lemma sortMostStaleFirst_descending:
  "sorted_wrt (\<lambda>a b. daysSinceReview b \<le> daysSinceReview a) (sortMostStaleFirst items)"
proof -
  have "sorted (map (\<lambda>item. - daysSinceReview item) (sortMostStaleFirst items))"
    unfolding sortMostStaleFirst_def by (rule sorted_sort_key)
  then show ?thesis
    by (simp add: sorted_wrt_map)
qed

text \<open>
  C3 as stated fails: for a rationale reviewed 40 days ago followed by one reviewed 100
  days ago, \<open>rationalesNeedingReview\<close> lists 40 before 100.
\<close>

theorem rationalesNeedingReview_order_counterexample:
  "map daysSinceReview (rationalesNeedingReview (generateReviewSummary numberToString
       [\<lparr> rat_id = ''rat-002'', rat_title = ''Collateral Valuation Basis'',
          rat_description = ''Property valuation based on Q1 2024 appraisal'',
          createdAt = 1710460800000, lastReviewedAt = 1731888000000, status = ReviewDue,
          contextualSignals = [] \<rparr>,
        \<lparr> rat_id = ''rat-003'', rat_title = ''Management Experience Consideration'',
          rat_description = ''CEO has 20+ years industry experience'',
          createdAt = 1710460800000, lastReviewedAt = 1726704000000, status = Stale,
          contextualSignals = [] \<rparr>]
       ''CML-2024-00847'' 1735344000000)) = [40, 100]
   \<and> \<not> sorted (rev (map daysSinceReview (rationalesNeedingReview
       (generateReviewSummary numberToString
       [\<lparr> rat_id = ''rat-002'', rat_title = ''Collateral Valuation Basis'',
          rat_description = ''Property valuation based on Q1 2024 appraisal'',
          createdAt = 1710460800000, lastReviewedAt = 1731888000000, status = ReviewDue,
          contextualSignals = [] \<rparr>,
        \<lparr> rat_id = ''rat-003'', rat_title = ''Management Experience Consideration'',
          rat_description = ''CEO has 20+ years industry experience'',
          createdAt = 1710460800000, lastReviewedAt = 1726704000000, status = Stale,
          contextualSignals = [] \<rparr>]
       ''CML-2024-00847'' 1735344000000))))"
  by (simp add: rationalesNeedingReview_eq getRationalesNeedingReview_def
      getDaysSinceReview_div)

text \<open>
  C3, amended. The \<open>rationalesNeedingReview\<close> field lists the rationales whose status is
  Review Due or Stale in the order of the input list. The entries of \<open>summaryText\<close> are
  those of the field ordered most-stale-first: the text is rendered from a stable sort
  of the field by \<open>daysSinceReview\<close>, descending. Stable: the entries with any one
  number \<open>k\<close> of days follow each other in the text as they do in the field.
\<close>

theorem generateReviewSummary_order:
  "rationalesNeedingReview (generateReviewSummary f rs lid now) =
     map (\<lambda>r. \<lparr> item_title = rat_title r, item_status = status r,
                 daysSinceReview = getDaysSinceReview (lastReviewedAt r) now \<rparr>)
         (getRationalesNeedingReview rs)
   \<and> getRationalesNeedingReview rs = filter (\<lambda>r. status r \<noteq> Fresh) rs
   \<and> summaryText (generateReviewSummary f rs lid now) =
       joinLines (generateSummaryLines f lid
         (rationalesNeedingReview (generateReviewSummary f rs lid now)) now)
   \<and> generateSummaryLines f lid (item # items) now =
       [''ANNUAL REVIEW SUMMARY'', ''====================='', [],
        ''Loan ID: '' @ lid, ''Generated: '' @ f now, [],
        ''RATIONALES REQUIRING REVIEW'', ''---------------------------'', []]
       @ concat (map entryLines (sortMostStaleFirst (item # items)))
       @ [''---------------------------'',
          ''Total rationales requiring review: ''
            @ numberToString (int (length (item # items)))]
   \<and> sorted_wrt (\<lambda>a b. daysSinceReview b \<le> daysSinceReview a) (sortMostStaleFirst items)
   \<and> mset (sortMostStaleFirst items) = mset items
   \<and> filter (\<lambda>item. daysSinceReview item = k) (sortMostStaleFirst items)
       = filter (\<lambda>item. daysSinceReview item = k) items"
proof -
  have needing: "getRationalesNeedingReview rs = filter (\<lambda>r. status r \<noteq> Fresh) rs"
    unfolding getRationalesNeedingReview_def
    by (rule filter_cong) (auto intro: RationaleStatus.exhaust)
  have rendered: "summaryText (generateReviewSummary f rs lid now) =
       joinLines (generateSummaryLines f lid
         (rationalesNeedingReview (generateReviewSummary f rs lid now)) now)"
    by (simp add: generateReviewSummary_def generateSummaryText_def Let_def)
  have lines: "generateSummaryLines f lid (item # items) now =
       [''ANNUAL REVIEW SUMMARY'', ''====================='', [],
        ''Loan ID: '' @ lid, ''Generated: '' @ f now, [],
        ''RATIONALES REQUIRING REVIEW'', ''---------------------------'', []]
       @ concat (map entryLines (sortMostStaleFirst (item # items)))
       @ [''---------------------------'',
          ''Total rationales requiring review: ''
            @ numberToString (int (length (item # items)))]"
    by (simp add: generateSummaryLines_def)
  have perm: "mset (sortMostStaleFirst items) = mset items"
    by (simp add: sortMostStaleFirst_def)
  have stable: "filter (\<lambda>item. daysSinceReview item = k) (sortMostStaleFirst items)
       = filter (\<lambda>item. daysSinceReview item = k) items"
    using sort_key_stable [of "\<lambda>item. - daysSinceReview item" "- k" items]
    by (simp add: sortMostStaleFirst_def)
  from rationalesNeedingReview_eq needing rendered lines sortMostStaleFirst_descending perm
    stable
  show ?thesis
    by blast
qed

text \<open>
  C4 as stated fails: a review dated one day after \<open>now\<close> gives \<open>-1\<close> days, and the
  summary entry of a rationale with that review date carries \<open>-1\<close>.
\<close>

theorem getDaysSinceReview_nonneg_counterexample:
  "getDaysSinceReview 1735430400000 1735344000000 = - 1
   \<and> map daysSinceReview (rationalesNeedingReview (generateReviewSummary numberToString
       [\<lparr> rat_id = ''rat-003'', rat_title = ''Management Experience Consideration'',
          rat_description = ''CEO has 20+ years industry experience'',
          createdAt = 1710460800000, lastReviewedAt = 1735430400000, status = Stale,
          contextualSignals = [] \<rparr>]
       ''CML-2024-00847'' 1735344000000)) = [- 1]"
  by (simp add: rationalesNeedingReview_eq getRationalesNeedingReview_def
      getDaysSinceReview_div)

text \<open>
  C4, amended. For two dates less than \<open>2^53\<close> ms apart, \<open>getDaysSinceReview\<close> returns
  the integer floor((now - lastReviewedAt) in milliseconds / milliseconds-per-day). For
  every pair of dates its result is non-negative exactly when \<open>lastReviewedAt\<close> is not
  later than \<open>now\<close>. Every entry of \<open>rationalesNeedingReview\<close> carries a non-negative
  \<open>daysSinceReview\<close> when no rationale of the input was reviewed later than \<open>now\<close>.
\<close>

theorem getDaysSinceReview_floor:
  "(\<bar>getTime n - getTime l\<bar> < 2 ^ 53
      \<longrightarrow> getDaysSinceReview l n = \<lfloor>real_of_int (getTime n - getTime l) / 86400000\<rfloor>)
   \<and> (0 \<le> getDaysSinceReview l n \<longleftrightarrow> getTime l \<le> getTime n)
   \<and> ((\<forall>r \<in> set rs. getTime (lastReviewedAt r) \<le> getTime now)
        \<longrightarrow> (\<forall>e \<in> set (rationalesNeedingReview (generateReviewSummary f rs lid now)).
              0 \<le> daysSinceReview e))"
proof -
  have fl: "getDaysSinceReview l n = \<lfloor>real_of_int (getTime n - getTime l) / 86400000\<rfloor>"
    using floor_divide_of_int_eq [of "getTime n - getTime l" 86400000, where ?'a = real]
    by (simp add: getDaysSinceReview_div getTime_def)
  have nonneg: "(0 \<le> getDaysSinceReview a b) = (getTime a \<le> getTime b)" for a b
    by (simp add: getDaysSinceReview_div getTime_def pos_imp_zdiv_nonneg_iff)
  have entries: "(\<forall>r \<in> set rs. getTime (lastReviewedAt r) \<le> getTime now)
        \<longrightarrow> (\<forall>e \<in> set (rationalesNeedingReview (generateReviewSummary f rs lid now)).
              0 \<le> daysSinceReview e)"
    by (auto simp: rationalesNeedingReview_eq getRationalesNeedingReview_def nonneg)
  from fl nonneg entries show ?thesis
    by blast
qed

theorem getDaysSinceReview_floor_witness:
  "\<bar>getTime 1735344000000 - getTime 1726704000000\<bar> < 2 ^ 53
   \<and> getDaysSinceReview 1726704000000 1735344000000
       = \<lfloor>real_of_int (getTime 1735344000000 - getTime 1726704000000) / 86400000\<rfloor>
   \<and> getDaysSinceReview 1726704000000 1735344000000 = 100
   \<and> getTime 1726704000000 \<le> getTime 1735344000000
   \<and> map daysSinceReview (rationalesNeedingReview (generateReviewSummary numberToString
       [\<lparr> rat_id = ''rat-003'', rat_title = ''Management Experience Consideration'',
          rat_description = ''CEO has 20+ years industry experience'',
          createdAt = 1710460800000, lastReviewedAt = 1726704000000, status = Stale,
          contextualSignals = [] \<rparr>]
       ''CML-2024-00847'' 1735344000000)) = [100]"
  using getDaysSinceReview_floor
    [of 1726704000000 1735344000000
        "[\<lparr> rat_id = ''rat-003'', rat_title = ''Management Experience Consideration'',
          rat_description = ''CEO has 20+ years industry experience'',
          createdAt = 1710460800000, lastReviewedAt = 1726704000000, status = Stale,
          contextualSignals = [] \<rparr>]"
        1735344000000 numberToString "''CML-2024-00847''"]
  by (simp add: rationalesNeedingReview_eq getRationalesNeedingReview_def
      getDaysSinceReview_div getTime_def)

section \<open>Properties of the approval logic age\<close>

text \<open>
  C8. \<open>calculateApprovalLogicAge\<close> returns (currentYear - approvalYear) * 12 +
  (currentMonth - approvalMonth), minus 1 when the current day of the month is less than
  the approval day of the month, and 0 when that is negative. The age of a date against
  itself is 0, and the age is never negative, whichever of the two dates is later.
\<close>

theorem calculateApprovalLogicAge_formula:
  "calculateApprovalLogicAge tza approval current =
     max 0 ((getFullYear tza current - getFullYear tza approval) * 12
            + (getMonth tza current - getMonth tza approval)
            - (if getDate tza current < getDate tza approval then 1 else 0))
   \<and> calculateApprovalLogicAge tza d d = 0
   \<and> 0 \<le> calculateApprovalLogicAge tza approval current"
  by (simp add: calculateApprovalLogicAge_def Let_def)

text \<open>
  The calendar fields of 2024-11-30, of 2000-02-29 and of the last millisecond of 1969, and
  the ages that the tests of the repository expect, on a host whose local time is UTC:
  2024-11-30 to 2024-12-15, 2024-11-15 to 2024-12-15, 2023-06-15 to 2024-12-28, and an
  approval on 2025-06-15 seen from 2024-12-28.
\<close>

lemma calendar_fields_examples:
  "YearFromTime 1732924800000 = 2024 \<and> MonthFromTime 1732924800000 = 10
   \<and> DateFromTime 1732924800000 = 30
   \<and> YearFromTime 951782400000 = 2000 \<and> MonthFromTime 951782400000 = 1
   \<and> DateFromTime 951782400000 = 29
   \<and> YearFromTime (- 1) = 1969 \<and> MonthFromTime (- 1) = 11 \<and> DateFromTime (- 1) = 31"
  by (simp add: YearFromTime_def MonthFromTime_def DateFromTime_def DayWithinYear_def
      YearFromDay_def DayFromYear_def Day_def msPerDay_def leapDays_def DaysInYear_def
      monthOfDayInYear_def monthStart_def Let_def)

lemma calculateApprovalLogicAge_examples:
  "calculateApprovalLogicAge (\<lambda>t. 0) 1732924800000 1734220800000 = 0
   \<and> calculateApprovalLogicAge (\<lambda>t. 0) 1731628800000 1734220800000 = 1
   \<and> calculateApprovalLogicAge (\<lambda>t. 0) 1686787200000 1735344000000 = 18
   \<and> calculateApprovalLogicAge (\<lambda>t. 0) 1749945600000 1735344000000 = 0"
  by (simp add: calculateApprovalLogicAge_def getFullYear_def getMonth_def getDate_def
      LocalTime_def YearFromTime_def MonthFromTime_def DateFromTime_def DayWithinYear_def
      YearFromDay_def DayFromYear_def Day_def msPerDay_def leapDays_def DaysInYear_def
      monthOfDayInYear_def monthStart_def Let_def)

section \<open>Properties of the rationale extractor\<close>

lemma canonicalize_blank: "isWhiteSpace x \<Longrightarrow> canonicalize x = x"
  by (auto simp: isWhiteSpace_def canonicalize_def Let_def)

lemma toLowerChar_blank: "isWhiteSpace x \<Longrightarrow> toLowerChar x = x"
  by (auto simp: isWhiteSpace_def toLowerChar_def Let_def)

lemma searchRx_blank:
  assumes "\<forall>x \<in> set s. isWhiteSpace x" and "\<not> isWhiteSpace (canonicalize c)"
  shows "searchRx (Lit c # r) s = None"
  using assms
proof (induction s)
  case Nil
  then show ?case by simp
next
  case (Cons x xs)
  then have "canonicalize x \<noteq> canonicalize c"
    by (auto simp: canonicalize_blank)
  with Cons show ?case by simp
qed

lemma findFirst_absent:
  assumes "k \<notin> set s"
  shows "findFirst (k # ks) s = None"
  using assms by (induction s) (auto simp: startsWith_def)

lemma dropWhile_all_iff: "(\<forall>x \<in> set (dropWhile P s). P x) \<longleftrightarrow> (\<forall>x \<in> set s. P x)"
  by (induction s) auto

lemma trim_empty_iff: "trim s = [] \<longleftrightarrow> (\<forall>x \<in> set s. isWhiteSpace x)"
  by (simp add: trim_def dropWhile_eq_Nil_conv dropWhile_all_iff)

lemma extractSections_blank:
  assumes "\<forall>x \<in> set s. isWhiteSpace x"
  shows "extractSections s = []"
proof -
  have none: "searchRx (rxOf (c # cs)) s = None"
    if "\<not> isWhiteSpace c" and "\<not> isWhiteSpace (canonicalize c)" for c cs
    using that assms by (simp add: rxOf_def searchRx_blank)
  have letters: "\<not> isWhiteSpace CHR ''C''" "\<not> isWhiteSpace (canonicalize CHR ''C'')"
      "\<not> isWhiteSpace CHR ''A''" "\<not> isWhiteSpace (canonicalize CHR ''A'')"
      "\<not> isWhiteSpace CHR ''O''" "\<not> isWhiteSpace (canonicalize CHR ''O'')"
      "\<not> isWhiteSpace CHR ''R''" "\<not> isWhiteSpace (canonicalize CHR ''R'')"
      "\<not> isWhiteSpace CHR ''E''" "\<not> isWhiteSpace (canonicalize CHR ''E'')"
    by (simp_all add: isWhiteSpace_def canonicalize_def)
  show ?thesis
    by (simp add: extractSections_def sectionDefs_def none letters)
qed

lemma fallbackLoop_blank:
  assumes "\<forall>x \<in> set s. isWhiteSpace x"
  shows "fallbackLoop ids now s (toLowerCase s) fallbackPatterns [] = []"
proof -
  have lower: "toLowerCase s = s"
    using assms by (simp add: toLowerCase_def toLowerChar_blank map_idI)
  have absent: "indexOf s (k # ks) 0 = - 1" if "\<not> isWhiteSpace k" for k ks
  proof -
    from that assms have "k \<notin> set s" by blast
    then show ?thesis
      by (simp add: indexOf_def findFirst_absent)
  qed
  have letters: "\<not> isWhiteSpace CHR ''c''" "\<not> isWhiteSpace CHR ''m''"
      "\<not> isWhiteSpace CHR ''o''" "\<not> isWhiteSpace CHR ''r''"
    by (simp_all add: isWhiteSpace_def)
  show ?thesis
    by (simp add: lower fallbackPatterns_def absent letters)
qed

lemma mockExtractRationales_blank:
  assumes "trim s = []"
  shows "mockExtractRationales ids now s = []"
proof -
  from assms have blank: "\<forall>x \<in> set s. isWhiteSpace x"
    by (simp add: trim_empty_iff)
  have sec: "sectionRationales ids now s = []"
    by (simp add: sectionRationales_def extractSections_blank [OF blank] sectionMappings_def)
  have fb: "fallbackRationales ids now s = []"
    by (simp add: fallbackRationales_def sec fallbackLoop_blank [OF blank])
  show ?thesis
    by (simp add: mockExtractRationales_def fb assms)
qed

text \<open>
  C9 as stated fails: the text of one space is not empty, neither the sections nor the
  keywords give a rationale for it, and the result is empty.
\<close>

theorem mockExtractRationales_generic_counterexample:
  "'' '' \<noteq> []
   \<and> sectionRationales decimalDigits 1735344000000 '' '' = []
   \<and> fallbackRationales decimalDigits 1735344000000 '' '' = []
   \<and> mockExtractRationales decimalDigits 1735344000000 '' '' = []"
proof -
  have blank: "\<forall>x \<in> set '' ''. isWhiteSpace x"
    by (simp add: isWhiteSpace_def)
  have sec: "sectionRationales decimalDigits 1735344000000 '' '' = []"
    by (simp add: sectionRationales_def extractSections_blank [OF blank] sectionMappings_def)
  have fb: "fallbackRationales decimalDigits 1735344000000 '' '' = []"
    by (simp add: fallbackRationales_def sec fallbackLoop_blank [OF blank])
  have "trim '' '' = []"
    using blank by (simp only: trim_empty_iff)
  then have "mockExtractRationales decimalDigits 1735344000000 '' '' = []"
    by (rule mockExtractRationales_blank)
  with sec fb show ?thesis
    by simp
qed

text \<open>
  C9, amended. \<open>mockExtractRationales\<close> applied to the empty string, and to any text of
  white space only, returns the empty sequence; for every text with a character that is
  not white space on which neither the section-based extraction nor the keyword fallback
  produced any rationale, it emits exactly one generic rationale, titled
  "Approval Rationale", built from the executive-summary section if present and from the
  first 500 characters of the text otherwise.
\<close>

theorem mockExtractRationales_generic:
  "mockExtractRationales ids now [] = []
   \<and> (trim text = [] \<longrightarrow> mockExtractRationales ids now text = [])
   \<and> (trim text \<noteq> [] \<and> sectionRationales ids now text = []
        \<and> fallbackRationales ids now text = []
      \<longrightarrow> mockExtractRationales ids now text =
            [\<lparr> pend_id = ids 0,
               pend_title = ''Approval Rationale'',
               pend_description =
                 trim (substring
                   (case map_of (extractSections text) ''Executive Summary'' of
                      None \<Rightarrow> substring text 0 500
                    | Some execSummary \<Rightarrow>
                        if execSummary \<noteq> [] then execSummary else substring text 0 500)
                   0 350)
                 @ (if length
                      (case map_of (extractSections text) ''Executive Summary'' of
                         None \<Rightarrow> substring text 0 500
                       | Some execSummary \<Rightarrow>
                           if execSummary \<noteq> [] then execSummary else substring text 0 500)
                      > 350
                    then ''...'' else []),
               extractedAt = now,
               sourceText =
                 (case map_of (extractSections text) ''Executive Summary'' of
                    None \<Rightarrow> substring text 0 500
                  | Some execSummary \<Rightarrow>
                      if execSummary \<noteq> [] then execSummary else substring text 0 500) \<rparr>])"
proof -
  have empty: "mockExtractRationales ids now [] = []"
    by (rule mockExtractRationales_blank) (simp add: trim_def)
  have blank: "trim text = [] \<longrightarrow> mockExtractRationales ids now text = []"
    by (simp add: mockExtractRationales_blank)
  have generic: "trim text \<noteq> [] \<and> sectionRationales ids now text = []
        \<and> fallbackRationales ids now text = []
      \<longrightarrow> mockExtractRationales ids now text =
            [\<lparr> pend_id = ids 0,
               pend_title = ''Approval Rationale'',
               pend_description =
                 trim (substring
                   (case map_of (extractSections text) ''Executive Summary'' of
                      None \<Rightarrow> substring text 0 500
                    | Some execSummary \<Rightarrow>
                        if execSummary \<noteq> [] then execSummary else substring text 0 500)
                   0 350)
                 @ (if length
                      (case map_of (extractSections text) ''Executive Summary'' of
                         None \<Rightarrow> substring text 0 500
                       | Some execSummary \<Rightarrow>
                           if execSummary \<noteq> [] then execSummary else substring text 0 500)
                      > 350
                    then ''...'' else []),
               extractedAt = now,
               sourceText =
                 (case map_of (extractSections text) ''Executive Summary'' of
                    None \<Rightarrow> substring text 0 500
                  | Some execSummary \<Rightarrow>
                      if execSummary \<noteq> [] then execSummary else substring text 0 500) \<rparr>]"
    by (simp add: mockExtractRationales_def Let_def)
  from empty blank generic show ?thesis
    by blast
qed

lemma extractor_example_sections:
  "sectionRationales decimalDigits 1735344000000 ''Loan approved today'' = []"
  by code_simp

lemma extractor_example_fallback:
  "fallbackRationales decimalDigits 1735344000000 ''Loan approved today'' = []"
  by code_simp

lemma extractor_example_trim:
  "trim ''Loan approved today'' = ''Loan approved today'' \<and> trim ''  '' = []"
  by code_simp

theorem mockExtractRationales_generic_witness:
  "trim ''  '' = []
   \<and> mockExtractRationales decimalDigits 1735344000000 ''  '' = []
   \<and> trim ''Loan approved today'' \<noteq> []
   \<and> sectionRationales decimalDigits 1735344000000 ''Loan approved today'' = []
   \<and> fallbackRationales decimalDigits 1735344000000 ''Loan approved today'' = []
   \<and> map pend_title (mockExtractRationales decimalDigits 1735344000000
        ''Loan approved today'') = [''Approval Rationale'']"
  using mockExtractRationales_generic [of decimalDigits 1735344000000 "''  ''"]
    mockExtractRationales_generic [of decimalDigits 1735344000000 "''Loan approved today''"]
    extractor_example_sections extractor_example_fallback extractor_example_trim
  by simp

section \<open>Properties of the calendar fields and of the ISO-8601 text\<close>

lemma div_mod_bounds:
  fixes x n :: int
  assumes "0 < n"
  shows "n * (x div n) \<le> x" and "x < n * (x div n) + n"
proof -
  have eq: "n * (x div n) + x mod n = x" by simp
  have "0 \<le> x mod n" "x mod n < n" using assms by simp_all
  with eq show "n * (x div n) \<le> x" and "x < n * (x div n) + n" by linarith+
qed

lemma DayFromYear_bounds:
  "146097 * (y - 1970) - 506 \<le> 400 * DayFromYear y"
  "400 * DayFromYear y \<le> 146097 * (y - 1970) + 589"
proof -
  define a where "a = (y - 1969) div 4"
  define b where "b = (y - 1901) div 100"
  define c where "c = (y - 1601) div 400"
  have a: "4 * a \<le> y - 1969" "y - 1969 < 4 * a + 4"
    unfolding a_def by (rule div_mod_bounds, simp)+
  have b: "100 * b \<le> y - 1901" "y - 1901 < 100 * b + 100"
    unfolding b_def by (rule div_mod_bounds, simp)+
  have c: "400 * c \<le> y - 1601" "y - 1601 < 400 * c + 400"
    unfolding c_def by (rule div_mod_bounds, simp)+
  have d: "DayFromYear y = 365 * (y - 1970) + a - b + c"
    by (simp add: DayFromYear_def a_def b_def c_def)
  show "146097 * (y - 1970) - 506 \<le> 400 * DayFromYear y"
    unfolding d using a b c by (simp add: algebra_simps)
  show "400 * DayFromYear y \<le> 146097 * (y - 1970) + 589"
    unfolding d using a b c by (simp add: algebra_simps)
qed

lemma div_succ:
  fixes x n :: int
  assumes "1 < n"
  shows "(x + 1) div n = (if (x + 1) mod n = 0 then x div n + 1 else x div n)"
proof -
  have eq: "x = n * (x div n) + x mod n" by simp
  have r: "0 \<le> x mod n" "x mod n < n" using assms by simp_all
  show ?thesis
  proof (cases "x mod n + 1 = n")
    case True
    have "x + 1 = n * (x div n) + (x mod n + 1)" using eq by linarith
    also have "\<dots> = n * (x div n + 1)" using True by (simp add: algebra_simps)
    finally have e: "x + 1 = n * (x div n + 1)" .
    have "(x + 1) div n = x div n + 1" "(x + 1) mod n = 0"
      unfolding e using assms by simp_all
    then show ?thesis by simp
  next
    case False
    with r have lt: "x mod n + 1 < n" by linarith
    have e: "x + 1 = n * (x div n) + (x mod n + 1)" using eq by linarith
    have "(x + 1) div n = x div n"
      using e lt r int_div_pos_eq [of "x + 1" n "x div n" "x mod n + 1"] by linarith
    moreover have "(x + 1) mod n = x mod n + 1"
      using e lt r int_mod_pos_eq [of "x + 1" n "x div n" "x mod n + 1"] by linarith
    ultimately show ?thesis using r by simp
  qed
qed


lemma mod_shift:
  fixes y n :: int
  shows "(y - n * k) mod n = y mod n"
proof -
  have "y - n * k = y + n * (- k)" by simp
  then show ?thesis by (simp only: mod_mult_self2)
qed


lemma leap_step:
  fixes y :: int
  shows "(y - 1968) div 4 = (y - 1969) div 4 + (if y mod 4 = 0 then 1 else 0)"
    and "(y - 1900) div 100 = (y - 1901) div 100 + (if y mod 100 = 0 then 1 else 0)"
    and "(y - 1600) div 400 = (y - 1601) div 400 + (if y mod 400 = 0 then 1 else 0)"
proof -
  have m4: "(y - 1968) mod 4 = y mod 4" using mod_shift [of y 4 492] by simp
  have m100: "(y - 1900) mod 100 = y mod 100" using mod_shift [of y 100 19] by simp
  have m400: "(y - 1600) mod 400 = y mod 400" using mod_shift [of y 400 4] by simp
  show "(y - 1968) div 4 = (y - 1969) div 4 + (if y mod 4 = 0 then 1 else 0)"
    using div_succ [of 4 "y - 1969"] m4 by simp
  show "(y - 1900) div 100 = (y - 1901) div 100 + (if y mod 100 = 0 then 1 else 0)"
    using div_succ [of 100 "y - 1901"] m100 by simp
  show "(y - 1600) div 400 = (y - 1601) div 400 + (if y mod 400 = 0 then 1 else 0)"
    using div_succ [of 400 "y - 1601"] m400 by simp
qed


lemma leap_mods:
  fixes y :: int
  shows "y mod 400 = 0 \<Longrightarrow> y mod 100 = 0" and "y mod 100 = 0 \<Longrightarrow> y mod 4 = 0"
proof -
  have "y mod 400 mod 100 = y mod 100" by (rule mod_mod_cancel) simp
  then show "y mod 400 = 0 \<Longrightarrow> y mod 100 = 0" by simp
  have "y mod 100 mod 4 = y mod 4" by (rule mod_mod_cancel) simp
  then show "y mod 100 = 0 \<Longrightarrow> y mod 4 = 0" by simp
qed



lemma DaysInYear_leaps:
  "DaysInYear y = 365 + (if y mod 4 = 0 then 1 else 0) - (if y mod 100 = 0 then 1 else 0)
     + (if y mod 400 = 0 then 1 else 0)"
  using leap_mods [of y] by (simp add: DaysInYear_def)

lemma DayFromYear_step: "DayFromYear (y + 1) = DayFromYear y + DaysInYear y"
proof -
  define a where "a = (y - 1969) div 4"
  define b where "b = (y - 1901) div 100"
  define c where "c = (y - 1601) div 400"
  define l4 :: int where "l4 = (if y mod 4 = 0 then 1 else 0)"
  define l100 :: int where "l100 = (if y mod 100 = 0 then 1 else 0)"
  define l400 :: int where "l400 = (if y mod 400 = 0 then 1 else 0)"
  have "DayFromYear (y + 1) =
      365 * (y - 1969) + (y - 1968) div 4 - (y - 1900) div 100 + (y - 1600) div 400"
    by (simp add: DayFromYear_def)
  also have "\<dots> = 365 * (y - 1969) + (a + l4) - (b + l100) + (c + l400)"
    unfolding leap_step a_def b_def c_def l4_def l100_def l400_def ..
  finally have next_year: "DayFromYear (y + 1) = 365 * (y - 1969) + (a + l4) - (b + l100) + (c + l400)" .
  have this_year: "DayFromYear y = 365 * (y - 1970) + a - b + c"
    by (simp add: DayFromYear_def a_def b_def c_def)
  have days: "DaysInYear y = 365 + l4 - l100 + l400"
    unfolding l4_def l100_def l400_def by (rule DaysInYear_leaps)
  show ?thesis
    unfolding next_year this_year days by (simp add: algebra_simps)
qed


lemma YearFromDay_bracket:
  "DayFromYear (YearFromDay d) \<le> d" "d < DayFromYear (YearFromDay d + 1)"
proof -
  define k where "k = (400 * d) div 146097"
  have k: "146097 * k \<le> 400 * d" "400 * d < 146097 * k + 146097"
    unfolding k_def by (rule div_mod_bounds, simp)+
  have lo: "DayFromYear (1969 + k) \<le> d"
    using DayFromYear_bounds(2) [of "1969 + k"] k by (simp add: algebra_simps)
  have hi: "d < DayFromYear (1972 + k)"
    using DayFromYear_bounds(1) [of "1972 + k"] k by (simp add: algebra_simps)
  have e: "YearFromDay d =
      (if DayFromYear (1971 + k) \<le> d then 1971 + k
       else if DayFromYear (1970 + k) \<le> d then 1970 + k else 1969 + k)"
    by (simp add: YearFromDay_def Let_def k_def algebra_simps)
  show "DayFromYear (YearFromDay d) \<le> d"
    using lo by (simp add: e)
  show "d < DayFromYear (YearFromDay d + 1)"
    using hi by (simp add: e)
qed


lemma DayWithinYear_range:
  "0 \<le> DayWithinYear t" "DayWithinYear t < 365 + leapDays (YearFromTime t)"
proof -
  have step: "DayFromYear (YearFromTime t + 1) = DayFromYear (YearFromTime t) + DaysInYear (YearFromTime t)"
    by (rule DayFromYear_step)
  have days: "DaysInYear y = 365 + leapDays y" for y
    by (simp add: leapDays_def DaysInYear_def)
  show "0 \<le> DayWithinYear t"
    using YearFromDay_bracket(1) [of "Day t"] by (simp add: DayWithinYear_def YearFromTime_def)
  show "DayWithinYear t < 365 + leapDays (YearFromTime t)"
    using YearFromDay_bracket(2) [of "Day t"] step days
    by (simp add: DayWithinYear_def YearFromTime_def)
qed


lemma monthOfDayInYear_bracket:
  assumes "leap = 0 \<or> leap = 1" and "0 \<le> d" and "d < 365 + leap"
  shows "0 \<le> monthOfDayInYear leap d" and "monthOfDayInYear leap d \<le> 11"
    and "monthStart leap (monthOfDayInYear leap d) \<le> d"
    and "d < monthStart leap (monthOfDayInYear leap d + 1)"
  using assms by (auto simp: monthOfDayInYear_def monthStart_def)

lemma leapDays_cases: "leapDays y = 0 \<or> leapDays y = 1"
  by (simp add: leapDays_def)

lemma MonthFromTime_range: "0 \<le> MonthFromTime t" "MonthFromTime t \<le> 11"
  using monthOfDayInYear_bracket(1,2) [OF leapDays_cases DayWithinYear_range]
  by (simp_all add: MonthFromTime_def)

lemma DateFromTime_range:
  "1 \<le> DateFromTime t" "DateFromTime t \<le> DaysInMonth (YearFromTime t) (MonthFromTime t)"
  using monthOfDayInYear_bracket(3,4) [OF leapDays_cases DayWithinYear_range, of t]
  by (simp_all add: DateFromTime_def MonthFromTime_def DaysInMonth_def)

lemma DaysInMonth_le: "0 \<le> m \<Longrightarrow> m \<le> 11 \<Longrightarrow> DaysInMonth y m \<le> 31"
  using leapDays_cases [of y] by (auto simp: DaysInMonth_def monthStart_def)

lemma MakeDay_fields:
  "MakeDay (YearFromTime t) (MonthFromTime t) (DateFromTime t) = Day t"
proof -
  have "MonthFromTime t div 12 = 0" "MonthFromTime t mod 12 = MonthFromTime t"
    using MonthFromTime_range [of t] by simp_all
  then show ?thesis
    by (simp add: MakeDay_def DateFromTime_def DayWithinYear_def)
qed

lemma time_fields_range:
  "0 \<le> HourFromTime t" "HourFromTime t \<le> 23" "0 \<le> MinFromTime t" "MinFromTime t \<le> 59"
  "0 \<le> SecFromTime t" "SecFromTime t \<le> 59" "0 \<le> msFromTime t" "msFromTime t \<le> 999"
proof -
  have "HourFromTime t < 24" "MinFromTime t < 60" "SecFromTime t < 60" "msFromTime t < 1000"
    by (simp_all add: HourFromTime_def MinFromTime_def SecFromTime_def msFromTime_def)
  then show "HourFromTime t \<le> 23" "MinFromTime t \<le> 59" "SecFromTime t \<le> 59"
      "msFromTime t \<le> 999"
    by simp_all
  show "0 \<le> HourFromTime t" "0 \<le> MinFromTime t" "0 \<le> SecFromTime t" "0 \<le> msFromTime t"
    by (simp_all add: HourFromTime_def MinFromTime_def SecFromTime_def msFromTime_def)
qed

lemma MakeDate_fields:
  "MakeDate (Day t) (MakeTime (HourFromTime t) (MinFromTime t) (SecFromTime t) (msFromTime t))
     = t"
proof -
  have s: "t mod 60000 = 1000 * (t div 1000 mod 60) + t mod 1000"
    using zmod_zmult2_eq [of 60 t 1000] by simp
  have m: "t mod 3600000 = 60000 * (t div 60000 mod 60) + t mod 60000"
    using zmod_zmult2_eq [of 60 t 60000] by simp
  have h: "t mod 86400000 = 3600000 * (t div 3600000 mod 24) + t mod 3600000"
    using zmod_zmult2_eq [of 24 t 3600000] by simp
  have "t = (t div 86400000) * 86400000 + t mod 86400000"
    by simp
  with s m h show ?thesis
    by (simp add: MakeDate_def MakeTime_def Day_def msPerDay_def HourFromTime_def
        MinFromTime_def SecFromTime_def msFromTime_def)
qed


lemma digitChar_code: "k < 10 \<Longrightarrow> of_char (digitChar k) = 48 + k"
  by (simp add: digitChar_def)

lemma digitChar_digit: "k < 10 \<Longrightarrow> isDigit (digitChar k)" "k < 10 \<Longrightarrow> digitValue (digitChar k) = k"
  by (simp_all add: isDigit_def digitValue_def digitChar_code)

lemma digitChar_not_sign:
  assumes "k < 10"
  shows "digitChar k \<noteq> CHR ''+''" and "digitChar k \<noteq> CHR ''-''"
proof -
  have "(of_char (digitChar k) :: nat) \<noteq> of_char CHR ''+''"
       "(of_char (digitChar k) :: nat) \<noteq> of_char CHR ''-''"
    using assms by (simp_all add: digitChar_code)
  then show "digitChar k \<noteq> CHR ''+''" and "digitChar k \<noteq> CHR ''-''"
    by auto
qed

lemma readDigits_padDigits:
  "n < 10 ^ w \<Longrightarrow> readDigits w (padDigits w n @ rest) = Some (n, rest)"
proof (induction w arbitrary: n rest)
  case 0
  then show ?case by simp
next
  case (Suc w)
  then have "n div 10 < 10 ^ w"
    by (simp add: less_mult_imp_div_less mult.commute)
  then have "readDigits w (padDigits w (n div 10) @ digitChar (n mod 10) # rest)
      = Some (n div 10, digitChar (n mod 10) # rest)"
    by (rule Suc.IH)
  then show ?case
    by (simp add: digitChar_digit)
qed

lemma Day_range:
  assumes "validTime t"
  shows "- 100000000 \<le> Day t" and "Day t \<le> 100000000"
proof -
  note b = div_mod_bounds [of 86400000 t]
  from assms have "- 8640000000000000 \<le> t" "t \<le> 8640000000000000"
    by (simp_all add: validTime_def)
  with b show "- 100000000 \<le> Day t" and "Day t \<le> 100000000"
    by (simp_all add: Day_def msPerDay_def)
qed

lemma YearFromTime_range:
  assumes "validTime t"
  shows "- 999999 \<le> YearFromTime t" and "YearFromTime t \<le> 999999"
proof -
  define y where "y = YearFromTime t"
  have lo: "DayFromYear y \<le> Day t" and hi: "Day t < DayFromYear (y + 1)"
    unfolding y_def YearFromTime_def by (rule YearFromDay_bracket)+
  note d = Day_range [OF assms]
  have "146097 * (y - 1970) - 506 \<le> 400 * DayFromYear y"
    by (rule DayFromYear_bounds)
  with lo d have "146097 * y \<le> 146097 * 999999" by simp
  then show "YearFromTime t \<le> 999999" unfolding y_def [symmetric] by simp
  have "400 * DayFromYear (y + 1) \<le> 146097 * (y + 1 - 1970) + 589"
    by (rule DayFromYear_bounds)
  with hi d have "146097 * (- 999999) \<le> 146097 * y" by simp
  then show "- 999999 \<le> YearFromTime t" unfolding y_def [symmetric] by simp
qed


lemma readDigits_pad2 [simp]: "n < 100 \<Longrightarrow> readDigits 2 (padDigits 2 n @ rest) = Some (n, rest)"
  using readDigits_padDigits [of n 2 rest] by simp

lemma padDigits_head: "\<exists>k cs. k < 10 \<and> padDigits (Suc w) n = digitChar k # cs"
proof (induction w arbitrary: n)
  case 0
  have "n mod 10 < 10" by simp
  then show ?case by (metis padDigits.simps append_Nil)
next
  case (Suc w)
  from Suc [of "n div 10"] obtain k cs
    where "k < 10" "padDigits (Suc w) (n div 10) = digitChar k # cs" by blast
  then have "k < 10 \<and> padDigits (Suc (Suc w)) n = digitChar k # (cs @ [digitChar (n mod 10)])"
    by simp
  then show ?case by blast
qed

lemma readYear_isoYear:
  assumes "- 999999 \<le> y" and "y \<le> 999999"
  shows "readYear (isoYear y @ rest) = Some (y, True, rest)"
proof (cases "0 \<le> y \<and> y \<le> 9999")
  case True
  define n where "n = nat y"
  have n: "n < 10 ^ 4" using True by (auto simp: n_def)
  have iso: "isoYear y = padDigits 4 n"
    using True by (simp add: isoYear_def n_def)
  have "\<exists>k cs. k < 10 \<and> padDigits (Suc 3) n = digitChar k # cs"
    by (rule padDigits_head)
  then obtain k cs where k: "k < 10" and split: "padDigits 4 n = digitChar k # cs"
    by auto
  have r: "readDigits 4 (padDigits 4 n @ rest) = Some (n, rest)"
    using n by (rule readDigits_padDigits)
  have "readYear (padDigits 4 n @ rest) =
      map_option (\<lambda>(v, r). (int v, True, r)) (readDigits 4 (padDigits 4 n @ rest))"
    unfolding split using digitChar_not_sign [OF k] by (simp add: readYear_def)
  then have "readYear (isoYear y @ rest) = Some (int n, True, rest)"
    by (simp add: r iso)
  moreover have "int n = y"
    using True by (simp add: n_def)
  ultimately show ?thesis
    by simp
next
  case False
  show ?thesis
  proof (cases "y < 0")
    case True
    have "nat (- y) < 10 ^ 6" using assms by auto
    then have "readDigits 6 (padDigits 6 (nat (- y)) @ rest) = Some (nat (- y), rest)"
      by (rule readDigits_padDigits)
    then show ?thesis
      using True by (simp add: readYear_def isoYear_def)
  next
    case nonneg: False
    have "nat y < 10 ^ 6" using assms by auto
    then have "readDigits 6 (padDigits 6 (nat y) @ rest) = Some (nat y, rest)"
      by (rule readDigits_padDigits)
    then show ?thesis
      using False nonneg by (simp add: readYear_def isoYear_def)
  qed
qed


lemma readDigits_pad3: "n < 1000 \<Longrightarrow> readDigits 3 (padDigits 3 n @ rest) = Some (n, rest)"
  using readDigits_padDigits [of n 3 rest] by simp

lemma expect_head: "expect c (c # rest) = Some rest"
  by (simp add: expect_def)

lemma parseISO_fields:
  assumes y: "- 999999 \<le> y" "y \<le> 999999"
    and mo: "mo < 100" and dt: "dt < 100" and h: "h < 100" and mi: "mi < 100"
    and sec: "sec < 100" and ms: "ms < 1000"
  shows "parseISO (isoYear y
                @ CHR ''-'' # padDigits 2 mo
                @ CHR ''-'' # padDigits 2 dt
                @ CHR ''T'' # padDigits 2 h
                @ CHR '':'' # padDigits 2 mi
                @ CHR '':'' # padDigits 2 sec
                @ CHR ''.'' # padDigits 3 ms
                @ ''Z'') =
     (if 1 \<le> mo \<and> mo \<le> 12
             \<and> 1 \<le> dt \<and> int dt \<le> DaysInMonth y (int mo - 1)
             \<and> (h \<le> 23 \<or> (h = 24 \<and> mi = 0 \<and> sec = 0 \<and> ms = 0))
             \<and> mi \<le> 59 \<and> sec \<le> 59
      then TimeClip (MakeDate (MakeDay y (int mo - 1) (int dt))
                              (MakeTime (int h) (int mi) (int sec) (int ms)))
      else None)"
  unfolding parseISO_def readYear_isoYear [OF y]
  by (simp only: option.case prod.case expect_head Option.bind.simps append_Cons
      readDigits_pad2 [OF mo] readDigits_pad2 [OF dt] readDigits_pad2 [OF h]
      readDigits_pad2 [OF mi] readDigits_pad2 [OF sec] readDigits_pad3 [OF ms]
      append_Nil simp_thms)

lemma parseISO_isoText:
  assumes "validTime t"
  shows "parseISO (isoText t) = Some t"
proof -
  note mr = MonthFromTime_range [of t] and dr = DateFromTime_range [of t]
    and tr = time_fields_range [of t]
  have d31: "DateFromTime t \<le> 31"
    using dr(2) DaysInMonth_le [OF mr, of "YearFromTime t"] by linarith
  have parsed: "parseISO (isoText t) =
      TimeClip (MakeDate (MakeDay (YearFromTime t) (MonthFromTime t) (DateFromTime t))
         (MakeTime (HourFromTime t) (MinFromTime t) (SecFromTime t) (msFromTime t)))"
    unfolding isoText_def using mr dr tr d31
    by (subst parseISO_fields [OF YearFromTime_range [OF assms]]) auto
  have "TimeClip (MakeDate (MakeDay (YearFromTime t) (MonthFromTime t) (DateFromTime t))
         (MakeTime (HourFromTime t) (MinFromTime t) (SecFromTime t) (msFromTime t))) = Some t"
    using assms by (simp add: MakeDay_fields MakeDate_fields TimeClip_def)
  then show ?thesis
    using parsed by simp
qed

text \<open>The model of the ISO text on known dates, and on a day that no month has.\<close>

lemma padDigits_unfold:
  "padDigits 2 n = [digitChar (n div 10 mod 10), digitChar (n mod 10)]"
  "padDigits 3 n = [digitChar (n div 10 div 10 mod 10), digitChar (n div 10 mod 10), digitChar (n mod 10)]"
  "padDigits 4 n = [digitChar (n div 10 div 10 div 10 mod 10), digitChar (n div 10 div 10 mod 10),
     digitChar (n div 10 mod 10), digitChar (n mod 10)]"
proof -
  have "padDigits (Suc (Suc 0)) n = [digitChar (n div 10 mod 10), digitChar (n mod 10)]"
    by simp
  then show "padDigits 2 n = [digitChar (n div 10 mod 10), digitChar (n mod 10)]"
    by (simp only: numeral_2_eq_2)
  have "padDigits (Suc (Suc (Suc 0))) n =
      [digitChar (n div 10 div 10 mod 10), digitChar (n div 10 mod 10), digitChar (n mod 10)]"
    by simp
  then show "padDigits 3 n =
      [digitChar (n div 10 div 10 mod 10), digitChar (n div 10 mod 10), digitChar (n mod 10)]"
    by (simp only: numeral_3_eq_3)
  have 4: "(4::nat) = Suc (Suc (Suc (Suc 0)))" by simp
  show "padDigits 4 n = [digitChar (n div 10 div 10 div 10 mod 10), digitChar (n div 10 div 10 mod 10),
     digitChar (n div 10 mod 10), digitChar (n mod 10)]"
    unfolding 4 by simp
qed

lemma digitChar_values:
  "digitChar 0 = CHR ''0''" "digitChar 1 = CHR ''1''" "digitChar 2 = CHR ''2''"
  "digitChar 3 = CHR ''3''" "digitChar 4 = CHR ''4''" "digitChar 5 = CHR ''5''"
  "digitChar 6 = CHR ''6''" "digitChar 7 = CHR ''7''" "digitChar 8 = CHR ''8''"
  "digitChar 9 = CHR ''9''" "digitChar (Suc 0) = CHR ''1''"
  by code_simp+

lemmas calendar_defs = YearFromTime_def MonthFromTime_def DateFromTime_def DayWithinYear_def
  YearFromDay_def DayFromYear_def Day_def msPerDay_def leapDays_def DaysInYear_def
  monthOfDayInYear_def monthStart_def HourFromTime_def MinFromTime_def SecFromTime_def
  msFromTime_def Let_def

lemma toISOString_examples:
  "toISOString 1710460800000 = Inr ''2024-03-15T00:00:00.000Z''"
  "toISOString (- 1) = Inr ''1969-12-31T23:59:59.999Z''"
  "toISOString 8640000000000001 = Inl RangeError"
  by (simp_all add: toISOString_def isoText_def isoYear_def validTime_def calendar_defs
      padDigits_unfold digitChar_values)

lemma parseISO_examples:
  "parseISO ''2024-03-15T00:00:00.000Z'' = Some 1710460800000"
  "parseISO ''2024-02-30T00:00:00.000Z'' = None"
  by (simp_all add: parseISO_def readYear_def expect_def isDigit_def digitValue_def
      DaysInMonth_def MakeDay_def MakeTime_def MakeDate_def TimeClip_def validTime_def
      calendar_defs numeral_2_eq_2 numeral_3_eq_3 eval_nat_numeral)

section \<open>Properties of the JSON text\<close>

lemma hexValue_hexDigit: "k < 16 \<Longrightarrow> hexValue (hexDigit k) = Some k"
  by (auto simp: hexValue_def hexDigit_def Let_def)

lemma hex4_control:
  assumes "n < 32"
  shows "hex4 CHR ''0'' CHR ''0'' (hexDigit (n div 16)) (hexDigit (n mod 16)) = Some n"
proof -
  have "n div 16 < 16" "n mod 16 < 16" using assms by simp_all
  then have "hexValue (hexDigit (n div 16)) = Some (n div 16)"
      "hexValue (hexDigit (n mod 16)) = Some (n mod 16)"
    by (simp_all add: hexValue_hexDigit)
  moreover have "hexValue CHR ''0'' = Some 0"
    by (simp add: hexValue_def)
  ultimately show ?thesis
    by (simp add: hex4_def)
qed

lemma char_of_specials:
  "char_of (34 :: nat) = CHR 0x22" "char_of (92 :: nat) = CHR 0x5C"
  "char_of (8 :: nat) = CHR 0x08" "char_of (12 :: nat) = CHR 0x0C"
  "char_of (10 :: nat) = CHR 0x0A" "char_of (13 :: nat) = CHR 0x0D"
  "char_of (9 :: nat) = CHR 0x09"
  by code_simp+

lemma parseChars_escapeChar:
  "parseChars (escapeChar c @ rest) = map_option (\<lambda>(str, r). (c # str, r)) (parseChars rest)"
proof -
  define n where "n = (of_char c :: nat)"
  have c: "c = char_of n" by (simp add: n_def)
  have n256: "n < 256" by (simp add: n_def)
  consider "n = 34" | "n = 92" | "n = 8" | "n = 12" | "n = 10" | "n = 13" | "n = 9"
    | "n < 32" "n \<noteq> 8" "n \<noteq> 12" "n \<noteq> 10" "n \<noteq> 13" "n \<noteq> 9"
    | "32 \<le> n" "n \<noteq> 34" "n \<noteq> 92"
    by linarith
  then show ?thesis
  proof cases
    case 8
    then have e: "escapeChar c =
        [CHR 0x5C, CHR ''u'', CHR ''0'', CHR ''0'', hexDigit (n div 16), hexDigit (n mod 16)]"
      by (simp add: escapeChar_def n_def [symmetric])
    show ?thesis
      unfolding e using 8(1) by (simp add: hex4_control c [symmetric])
  next
    case 9
    then have e: "escapeChar c = [c]"
      by (simp add: escapeChar_def n_def [symmetric])
    have "c \<noteq> CHR 0x22" "c \<noteq> CHR 0x5C"
      using 9 by (auto simp: n_def)
    then show ?thesis
      unfolding e using 9(1) by (simp add: n_def)
  qed (simp_all add: escapeChar_def n_def [symmetric] c unescapeChar_def char_of_specials)
qed

lemma parseChars_quoted:
  "parseChars (concat (map escapeChar s) @ CHR 0x22 # rest) = Some (s, rest)"
  by (induction s) (simp_all add: parseChars_escapeChar)

lemma stringify_head:
  "\<exists>c cs. JSON_stringify j = c # cs \<and> \<not> jsonBlank c \<and> c \<noteq> CHR '']'' \<and> c \<noteq> CHR ''}''"
  by (cases j) (auto simp: jsonBlank_def quoteString_def)

lemma stringifyElements_head:
  assumes "xs \<noteq> []"
  shows "\<exists>c cs. stringifyElements xs @ t = c # cs \<and> \<not> jsonBlank c \<and> c \<noteq> CHR '']''"
proof -
  from assms obtain x ys where xs: "xs = x # ys" by (cases xs) auto
  obtain c cs where "JSON_stringify x = c # cs" "\<not> jsonBlank c" "c \<noteq> CHR '']''"
    using stringify_head [of x] by blast
  then show ?thesis
    unfolding xs by (cases ys) auto
qed

lemma stringifyMembers_head:
  assumes "ms \<noteq> []"
  shows "\<exists>cs. stringifyMembers ms @ t = CHR 0x22 # cs"
proof -
  from assms obtain k v ys where ms: "ms = (k, v) # ys" by (cases ms) auto
  show ?thesis
    unfolding ms by (cases ys) (auto simp: quoteString_def)
qed

lemma parseValue_atoms:
  "parseValue (Suc f) (''null'' @ rest) = Some (JNull, rest)"
  "parseValue (Suc f) (''true'' @ rest) = Some (JBool True, rest)"
  "parseValue (Suc f) (''false'' @ rest) = Some (JBool False, rest)"
  "parseValue (Suc f) (quoteString s @ rest) = Some (JString s, rest)"
  by (simp_all add: skipBlanks_def jsonBlank_def quoteString_def parseChars_quoted)

lemma parse_stringify_fuel:
  "\<forall>f rest. valueFuel j \<le> f \<longrightarrow> parseValue f (JSON_stringify j @ rest) = Some (j, rest)"
  "\<forall>f rest. xs \<noteq> [] \<longrightarrow> elementsFuel xs \<le> f \<longrightarrow>
     parseElements f (stringifyElements xs @ CHR '']'' # rest) = Some (xs, rest)"
  "\<forall>f rest. ms \<noteq> [] \<longrightarrow> membersFuel ms \<le> f \<longrightarrow>
     parseMembers f (stringifyMembers ms @ CHR ''}'' # rest) = Some (ms, rest)"
proof (induction j and xs and ms rule: JSON_stringify_stringifyElements_stringifyMembers.induct)
  case 1
  show ?case
  proof (intro allI impI)
    fix f rest assume "valueFuel JNull \<le> f"
    then obtain f' where "f = Suc f'" by (cases f) auto
    then show "parseValue f (JSON_stringify JNull @ rest) = Some (JNull, rest)"
      using parseValue_atoms(1) by simp
  qed
next
  case (2 b)
  show ?case
  proof (intro allI impI)
    fix f rest assume "valueFuel (JBool b) \<le> f"
    then obtain f' where "f = Suc f'" by (cases f) auto
    then show "parseValue f (JSON_stringify (JBool b) @ rest) = Some (JBool b, rest)"
      using parseValue_atoms(2,3) by (cases b) simp_all
  qed
next
  case (3 s)
  show ?case
  proof (intro allI impI)
    fix f rest assume "valueFuel (JString s) \<le> f"
    then obtain f' where "f = Suc f'" by (cases f) auto
    then show "parseValue f (JSON_stringify (JString s) @ rest) = Some (JString s, rest)"
      using parseValue_atoms(4) by simp
  qed
next
  case (4 xs)
  show ?case
  proof (intro allI impI)
    fix f rest assume fuel: "valueFuel (JArray xs) \<le> f"
    then obtain f' where f: "f = Suc f'" and f': "elementsFuel xs \<le> f'" by (cases f) auto
    show "parseValue f (JSON_stringify (JArray xs) @ rest) = Some (JArray xs, rest)"
    proof (cases "xs = []")
      case True
      then show ?thesis
        by (simp add: f skipBlanks_def jsonBlank_def)
    next
      case False
      obtain c cs where h: "stringifyElements xs @ CHR '']'' # rest = c # cs"
          "\<not> jsonBlank c" "c \<noteq> CHR '']''"
        using stringifyElements_head [OF False] by blast
      have els: "parseElements f' (stringifyElements xs @ CHR '']'' # rest) = Some (xs, rest)"
        using 4 False f' by blast
      have "parseValue (Suc f') (CHR ''['' # stringifyElements xs @ CHR '']'' # rest)
          = Some (JArray xs, rest)"
        using h els by (simp add: skipBlanks_def jsonBlank_def)
      then show ?thesis by (simp add: f)
    qed
  qed
next
  case (5 ms)
  show ?case
  proof (intro allI impI)
    fix f rest assume fuel: "valueFuel (JObject ms) \<le> f"
    then obtain f' where f: "f = Suc f'" and f': "membersFuel ms \<le> f'" by (cases f) auto
    show "parseValue f (JSON_stringify (JObject ms) @ rest) = Some (JObject ms, rest)"
    proof (cases "ms = []")
      case True
      then show ?thesis
        by (simp add: f skipBlanks_def jsonBlank_def)
    next
      case False
      obtain cs where h: "stringifyMembers ms @ CHR ''}'' # rest = CHR 0x22 # cs"
        using stringifyMembers_head [OF False] by blast
      have mem: "parseMembers f' (stringifyMembers ms @ CHR ''}'' # rest) = Some (ms, rest)"
        using 5 False f' by blast
      have "parseValue (Suc f') (CHR ''{'' # stringifyMembers ms @ CHR ''}'' # rest)
          = Some (JObject ms, rest)"
        using h mem by (simp add: skipBlanks_def jsonBlank_def)
      then show ?thesis by (simp add: f)
    qed
  qed
next
  case 6
  show ?case by simp
next
  case (7 x)
  show ?case
  proof (intro allI impI)
    fix f rest assume fuel: "elementsFuel [x] \<le> f"
    then obtain f' where f: "f = Suc f'" and f': "valueFuel x \<le> f'" by (cases f) auto
    have "parseValue f' (JSON_stringify x @ CHR '']'' # rest) = Some (x, CHR '']'' # rest)"
      using 7 f' by blast
    then show "parseElements f (stringifyElements [x] @ CHR '']'' # rest) = Some ([x], rest)"
      by (simp add: f skipBlanks_def jsonBlank_def)
  qed
next
  case (8 x y ys)
  show ?case
  proof (intro allI impI)
    fix f rest assume fuel: "elementsFuel (x # y # ys) \<le> f"
    then obtain f' where f: "f = Suc f'" and fx: "valueFuel x \<le> f'"
        and fr: "elementsFuel (y # ys) \<le> f'"
      by (cases f) auto
    have v: "parseValue f' (JSON_stringify x @ CHR '','' # stringifyElements (y # ys) @ CHR '']'' # rest)
        = Some (x, CHR '','' # stringifyElements (y # ys) @ CHR '']'' # rest)"
      using 8(1) fx by blast
    have r: "parseElements f' (stringifyElements (y # ys) @ CHR '']'' # rest) = Some (y # ys, rest)"
      using 8(2) fr by blast
    show "parseElements f (stringifyElements (x # y # ys) @ CHR '']'' # rest)
        = Some (x # y # ys, rest)"
      using v r by (simp add: f skipBlanks_def jsonBlank_def)
  qed
next
  case 9
  show ?case by simp
next
  case (10 k v)
  show ?case
  proof (intro allI impI)
    fix f rest assume fuel: "membersFuel [(k, v)] \<le> f"
    then obtain f' where f: "f = Suc f'" and f': "valueFuel v \<le> f'" by (cases f) auto
    have "parseValue f' (JSON_stringify v @ CHR ''}'' # rest) = Some (v, CHR ''}'' # rest)"
      using 10 f' by blast
    then show "parseMembers f (stringifyMembers [(k, v)] @ CHR ''}'' # rest) = Some ([(k, v)], rest)"
      by (simp add: f skipBlanks_def jsonBlank_def quoteString_def parseChars_quoted)
  qed
next
  case (11 k v m ms)
  show ?case
  proof (intro allI impI)
    fix f rest assume fuel: "membersFuel ((k, v) # m # ms) \<le> f"
    then obtain f' where f: "f = Suc f'" and fx: "valueFuel v \<le> f'"
        and fr: "membersFuel (m # ms) \<le> f'"
      by (cases f) auto
    have v: "parseValue f' (JSON_stringify v @ CHR '','' # stringifyMembers (m # ms) @ CHR ''}'' # rest)
        = Some (v, CHR '','' # stringifyMembers (m # ms) @ CHR ''}'' # rest)"
      using 11(1) fx by blast
    have r: "parseMembers f' (stringifyMembers (m # ms) @ CHR ''}'' # rest) = Some (m # ms, rest)"
      using 11(2) fr by blast
    show "parseMembers f (stringifyMembers ((k, v) # m # ms) @ CHR ''}'' # rest)
        = Some ((k, v) # m # ms, rest)"
      using v r by (simp add: f skipBlanks_def jsonBlank_def quoteString_def parseChars_quoted)
  qed
qed

lemma fuel_le_length:
  "valueFuel j \<le> length (JSON_stringify j)"
  "elementsFuel xs \<le> Suc (length (stringifyElements xs))"
  "membersFuel ms \<le> Suc (length (stringifyMembers ms))"
proof (induction j and xs and ms rule: JSON_stringify_stringifyElements_stringifyMembers.induct)
  case (2 b)
  show ?case by simp
next
  case (3 s)
  show ?case by (simp add: quoteString_def)
qed (simp_all add: quoteString_def)

lemma JSON_parse_stringify: "JSON_parse (JSON_stringify j) = Some j"
proof -
  have "valueFuel j \<le> Suc (length (JSON_stringify j))"
    using fuel_le_length(1) [of j] by simp
  then have "parseValue (Suc (length (JSON_stringify j))) (JSON_stringify j @ []) = Some (j, [])"
    using parse_stringify_fuel(1) by blast
  then show ?thesis
    by (simp add: JSON_parse_def skipBlanks_def)
qed

text \<open>The text of the snapshot of the initial state.\<close>

lemma stringify_example:
  "JSON_stringify (JObject [(''loan'', JNull), (''rationales'', JArray []),
       (''pendingRationales'', JArray []), (''isExtracting'', JBool False),
       (''showConfirmation'', JBool False), (''dataSource'', JString ''none'')])
     = ''{\"loan\":null,\"rationales\":[],\"pendingRationales\":[],\"isExtracting\":false,\"showConfirmation\":false,\"dataSource\":\"none\"}''"
  by (simp add: quoteString_def escapeChar_def)

section \<open>Properties of the persistence\<close>

lemma collect_roundtrip:
  assumes "\<forall>x \<in> set xs. \<exists>j. f x = Inr j \<and> g j = Inr (Some x)"
  shows "\<exists>js. collect (map f xs) = Inr js \<and> collectTyped (map g js) = Inr (Some xs)"
  using assms
proof (induction xs)
  case Nil
  show ?case by simp
next
  case (Cons x xs)
  then obtain j js where "f x = Inr j" "g j = Inr (Some x)"
      "collect (map f xs) = Inr js" "collectTyped (map g js) = Inr (Some xs)"
    by auto
  then have "collect (map f (x # xs)) = Inr (j # js)
      \<and> collectTyped (map g (j # js)) = Inr (Some (x # xs))"
    by simp
  then show ?case by blast
qed

lemma readStatus_text: "readStatus (Some (JString (status_text st))) = Some st"
  by (cases st) (simp_all add: readStatus_def readString_def)

lemma readDataSource_text: "readDataSource (Some (JString (dataSource_text ds))) = Some ds"
  by (cases ds) (simp_all add: readDataSource_def readString_def truthy_def)

lemma newDate_iso: "validTime t \<Longrightarrow> newDate (Some (JString (isoText t))) = Some t"
  by (simp add: newDate_def parseISO_isoText)

lemma signal_roundtrip:
  assumes "validTime (updatedAt s)"
  shows "\<exists>j. signalToJson s = Inr j \<and> signalFromJson j = Inr (Some s)"
proof -
  have "signalToJson s = Inr (JObject [(''id'', JString (sig_id s)),
      (''description'', JString (sig_description s)),
      (''updatedAt'', JString (isoText (updatedAt s)))])"
    using assms by (simp add: signalToJson_def toISOString_def)
  moreover have "signalFromJson (JObject [(''id'', JString (sig_id s)),
      (''description'', JString (sig_description s)),
      (''updatedAt'', JString (isoText (updatedAt s)))]) = Inr (Some s)"
    using assms by (simp add: signalFromJson_def getField_def readString_def newDate_iso)
  ultimately show ?thesis by blast
qed

lemma pending_roundtrip:
  assumes "validTime (extractedAt p)"
  shows "\<exists>j. pendingToJson p = Inr j \<and> pendingFromJson j = Inr (Some p)"
proof -
  have "pendingToJson p = Inr (JObject [(''id'', JString (pend_id p)),
      (''title'', JString (pend_title p)),
      (''description'', JString (pend_description p)),
      (''extractedAt'', JString (isoText (extractedAt p))),
      (''sourceText'', JString (sourceText p))])"
    using assms by (simp add: pendingToJson_def toISOString_def)
  moreover have "pendingFromJson (JObject [(''id'', JString (pend_id p)),
      (''title'', JString (pend_title p)),
      (''description'', JString (pend_description p)),
      (''extractedAt'', JString (isoText (extractedAt p))),
      (''sourceText'', JString (sourceText p))]) = Inr (Some p)"
    using assms by (simp add: pendingFromJson_def getField_def readString_def newDate_iso)
  ultimately show ?thesis by blast
qed

lemma rationale_roundtrip:
  assumes "validRationale r"
  shows "\<exists>j. rationaleToJson r = Inr j \<and> rationaleFromJson j = Inr (Some r)"
proof -
  from assms have v: "validTime (createdAt r)" "validTime (lastReviewedAt r)"
      and sv: "\<forall>s \<in> set (contextualSignals r). validTime (updatedAt s)"
    by (simp_all add: validRationale_def list_all_iff)
  have "\<forall>s \<in> set (contextualSignals r). \<exists>j. signalToJson s = Inr j \<and> signalFromJson j = Inr (Some s)"
    using sv signal_roundtrip by blast
  then obtain js where js: "collect (map signalToJson (contextualSignals r)) = Inr js"
      "collectTyped (map signalFromJson js) = Inr (Some (contextualSignals r))"
    using collect_roundtrip by blast
  have "rationaleToJson r = Inr (JObject [(''id'', JString (rat_id r)),
      (''title'', JString (rat_title r)),
      (''description'', JString (rat_description r)),
      (''createdAt'', JString (isoText (createdAt r))),
      (''lastReviewedAt'', JString (isoText (lastReviewedAt r))),
      (''status'', JString (status_text (status r))),
      (''contextualSignals'', JArray js)])"
    using v js(1) by (simp add: rationaleToJson_def toISOString_def)
  moreover have "rationaleFromJson (JObject [(''id'', JString (rat_id r)),
      (''title'', JString (rat_title r)),
      (''description'', JString (rat_description r)),
      (''createdAt'', JString (isoText (createdAt r))),
      (''lastReviewedAt'', JString (isoText (lastReviewedAt r))),
      (''status'', JString (status_text (status r))),
      (''contextualSignals'', JArray js)]) = Inr (Some r)"
    using v js(2)
    by (simp add: rationaleFromJson_def getField_def readString_def newDate_iso readStatus_text)
  ultimately show ?thesis by blast
qed

lemma loan_roundtrip:
  assumes "case l of None \<Rightarrow> True | Some info \<Rightarrow> validTime (approvalDate info)"
  shows "\<exists>j. loanToJson l = Inr j \<and> loanFromJson (Some j) = Some l"
proof (cases l)
  case None
  then show ?thesis
    by (simp add: loanToJson_def loanFromJson_def truthy_def)
next
  case (Some info)
  with assms have v: "validTime (approvalDate info)" by simp
  have "loanToJson l = Inr (JObject [(''id'', JString (loan_id info)),
      (''approvalDate'', JString (isoText (approvalDate info))),
      (''borrowerReference'', JString (borrowerReference info))])"
    using v Some by (simp add: loanToJson_def toISOString_def)
  moreover have "loanFromJson (Some (JObject [(''id'', JString (loan_id info)),
      (''approvalDate'', JString (isoText (approvalDate info))),
      (''borrowerReference'', JString (borrowerReference info))])) = Some l"
    using v Some
    by (simp add: loanFromJson_def truthy_def getField_def readString_def newDate_iso)
  ultimately show ?thesis by blast
qed

text \<open>
  C5. For every cockpit state whose dates are valid, \<open>serializeState\<close> returns a text, and
  \<open>deserializeState\<close> of that text returns the state itself: the loan with its approval
  date, every rationale with its dates and those of its contextual signals, every pending
  rationale with its extraction date, all to the millisecond, the lists element by
  element, and \<open>isExtracting\<close>, \<open>showConfirmation\<close> and \<open>dataSource\<close>.
\<close>

theorem serializeState_roundtrip:
  assumes "validState s"
  shows "\<exists>text. serializeState s = Inr text \<and> deserializeState text = Inr (Some s)"
proof -
  from assms have lv: "case loan s of None \<Rightarrow> True | Some info \<Rightarrow> validTime (approvalDate info)"
      and rv: "\<forall>r \<in> set (rationales s). validRationale r"
      and pv: "\<forall>p \<in> set (pendingRationales s). validTime (extractedAt p)"
    by (simp_all add: validState_def list_all_iff)
  obtain lj where lj: "loanToJson (loan s) = Inr lj" "loanFromJson (Some lj) = Some (loan s)"
    using loan_roundtrip [OF lv] by blast
  have "\<forall>r \<in> set (rationales s). \<exists>j. rationaleToJson r = Inr j \<and> rationaleFromJson j = Inr (Some r)"
    using rv rationale_roundtrip by blast
  then obtain rj where rj: "collect (map rationaleToJson (rationales s)) = Inr rj"
      "collectTyped (map rationaleFromJson rj) = Inr (Some (rationales s))"
    using collect_roundtrip by blast
  have "\<forall>p \<in> set (pendingRationales s). \<exists>j. pendingToJson p = Inr j \<and> pendingFromJson j = Inr (Some p)"
    using pv pending_roundtrip by blast
  then obtain pj where pj: "collect (map pendingToJson (pendingRationales s)) = Inr pj"
      "collectTyped (map pendingFromJson pj) = Inr (Some (pendingRationales s))"
    using collect_roundtrip by blast
  define snapshot where "snapshot = JObject [(''loan'', lj),
      (''rationales'', JArray rj),
      (''pendingRationales'', JArray pj),
      (''isExtracting'', JBool (isExtracting s)),
      (''showConfirmation'', JBool (showConfirmation s)),
      (''dataSource'', JString (dataSource_text (dataSource s)))]"
  have ser: "serializeState s = Inr (JSON_stringify snapshot)"
    by (simp add: serializeState_def lj(1) rj(1) pj(1) snapshot_def)
  have "stateFromJson snapshot = Inr (Some s)"
    by (simp add: stateFromJson_def snapshot_def getField_def lj(2) rj(2) pj(2) readBool_def
        readDataSource_text)
  then have "deserializeState (JSON_stringify snapshot) = Inr (Some s)"
    by (simp add: deserializeState_def JSON_parse_stringify)
  with ser show ?thesis by blast
qed

theorem serializeState_roundtrip_witness:
  "validState
      \<lparr> loan = Some \<lparr> loan_id = ''CML-2024-00847'', approvalDate = 1710460800000,
                        borrowerReference = ''REF-ACME-2024'' \<rparr>,
         rationales =
           [\<lparr> rat_id = ''rat-001'', rat_title = ''Revenue Stability Assessment'',
              rat_description = ''Stable revenue growth'', createdAt = 1710460800000,
              lastReviewedAt = 1734048000123, status = ReviewDue,
              contextualSignals =
                [\<lparr> sig_id = ''sig-001'',
                   sig_description = ''Industry revenue data updated 2 weeks ago'',
                   updatedAt = 1734134400000 \<rparr>] \<rparr>],
         pendingRationales =
           [\<lparr> pend_id = ''rat-9'', pend_title = ''Risk Factors'',
              pend_description = ''Key risks are mitigated'', extractedAt = 1735344000000,
              sourceText = ''Key risks are mitigated by covenants'' \<rparr>],
         isExtracting = False, showConfirmation = True, dataSource = SourceExtracted \<rparr>
   \<and> (\<exists>text.
        serializeState
          \<lparr> loan = Some \<lparr> loan_id = ''CML-2024-00847'', approvalDate = 1710460800000,
                            borrowerReference = ''REF-ACME-2024'' \<rparr>,
             rationales =
               [\<lparr> rat_id = ''rat-001'', rat_title = ''Revenue Stability Assessment'',
                  rat_description = ''Stable revenue growth'', createdAt = 1710460800000,
                  lastReviewedAt = 1734048000123, status = ReviewDue,
                  contextualSignals =
                    [\<lparr> sig_id = ''sig-001'',
                       sig_description = ''Industry revenue data updated 2 weeks ago'',
                       updatedAt = 1734134400000 \<rparr>] \<rparr>],
             pendingRationales =
               [\<lparr> pend_id = ''rat-9'', pend_title = ''Risk Factors'',
                  pend_description = ''Key risks are mitigated'', extractedAt = 1735344000000,
                  sourceText = ''Key risks are mitigated by covenants'' \<rparr>],
             isExtracting = False, showConfirmation = True, dataSource = SourceExtracted \<rparr> = Inr text
        \<and> deserializeState text = Inr (Some
          \<lparr> loan = Some \<lparr> loan_id = ''CML-2024-00847'', approvalDate = 1710460800000,
                            borrowerReference = ''REF-ACME-2024'' \<rparr>,
             rationales =
               [\<lparr> rat_id = ''rat-001'', rat_title = ''Revenue Stability Assessment'',
                  rat_description = ''Stable revenue growth'', createdAt = 1710460800000,
                  lastReviewedAt = 1734048000123, status = ReviewDue,
                  contextualSignals =
                    [\<lparr> sig_id = ''sig-001'',
                       sig_description = ''Industry revenue data updated 2 weeks ago'',
                       updatedAt = 1734134400000 \<rparr>] \<rparr>],
             pendingRationales =
               [\<lparr> pend_id = ''rat-9'', pend_title = ''Risk Factors'',
                  pend_description = ''Key risks are mitigated'', extractedAt = 1735344000000,
                  sourceText = ''Key risks are mitigated by covenants'' \<rparr>],
             isExtracting = False, showConfirmation = True, dataSource = SourceExtracted \<rparr>))"
proof -
  have valid: "validState
      \<lparr> loan = Some \<lparr> loan_id = ''CML-2024-00847'', approvalDate = 1710460800000,
                        borrowerReference = ''REF-ACME-2024'' \<rparr>,
         rationales =
           [\<lparr> rat_id = ''rat-001'', rat_title = ''Revenue Stability Assessment'',
              rat_description = ''Stable revenue growth'', createdAt = 1710460800000,
              lastReviewedAt = 1734048000123, status = ReviewDue,
              contextualSignals =
                [\<lparr> sig_id = ''sig-001'',
                   sig_description = ''Industry revenue data updated 2 weeks ago'',
                   updatedAt = 1734134400000 \<rparr>] \<rparr>],
         pendingRationales =
           [\<lparr> pend_id = ''rat-9'', pend_title = ''Risk Factors'',
              pend_description = ''Key risks are mitigated'', extractedAt = 1735344000000,
              sourceText = ''Key risks are mitigated by covenants'' \<rparr>],
         isExtracting = False, showConfirmation = True, dataSource = SourceExtracted \<rparr>"
    by (simp add: validState_def validRationale_def validTime_def)
  from serializeState_roundtrip [OF valid] valid show ?thesis
    by blast
qed

text \<open>
  Reading a snapshot without \<open>dataSource\<close>, one whose list of rationales holds \<open>null\<close>,
  and one whose list of pending rationales holds a boolean.
\<close>

lemma stateFromJson_examples:
  "stateFromJson (JObject [(''loan'', JNull), (''rationales'', JArray []),
       (''pendingRationales'', JArray []), (''isExtracting'', JBool False),
       (''showConfirmation'', JBool False)])
     = Inr (Some \<lparr> loan = None, rationales = [], pendingRationales = [], isExtracting = False,
         showConfirmation = False, dataSource = SourceNone \<rparr>)"
  "stateFromJson (JObject [(''loan'', JNull), (''rationales'', JArray [JNull]),
       (''pendingRationales'', JArray [])]) = Inl TypeError"
  "stateFromJson (JObject [(''loan'', JNull), (''rationales'', JArray []),
       (''pendingRationales'', JArray [JBool True]), (''isExtracting'', JBool False),
       (''showConfirmation'', JBool False)]) = Inr None"
  by (simp_all add: stateFromJson_def getField_def loanFromJson_def truthy_def readBool_def
      readDataSource_def rationaleFromJson_def pendingFromJson_def)

end
